theory Spec2Isabelle
  imports Complex_Main
begin

section \<open>Python values used by the program\<close>

text \<open>
  A Python dictionary entry read with \<^verbatim>\<open>d.get(k)\<close> is an \<open>option\<close>: \<open>None\<close> stands both
  for a missing key and for the value \<^verbatim>\<open>None\<close>, which \<^verbatim>\<open>get\<close> does not tell apart. Where the
  source reads a key with a default (\<^verbatim>\<open>d.get(k, dflt)\<close>) the two cases differ, and the entry
  is a \<open>field\<close>.
\<close>

datatype 'a field = Absent | Null | Val 'a

definition dict_get :: "'a field \<Rightarrow> 'a option" where
  "dict_get f = (case f of Absent \<Rightarrow> None | Null \<Rightarrow> None | Val v \<Rightarrow> Some v)"

definition dict_get_default :: "'a field \<Rightarrow> 'a \<Rightarrow> 'a option" where
  "dict_get_default f dflt = (case f of Absent \<Rightarrow> Some dflt | Null \<Rightarrow> None | Val v \<Rightarrow> Some v)"

text \<open>Exceptions, with the text that \<^verbatim>\<open>str(e)\<close> gives.\<close>

datatype exn =
    ParseError string
  | ValueError string
  | AttributeError string
  | DatabaseError string
  | RuntimeError string
  | TypeError string

fun str_exn :: "exn \<Rightarrow> string" where
  "str_exn (ParseError m) = m"
| "str_exn (ValueError m) = m"
| "str_exn (AttributeError m) = m"
| "str_exn (DatabaseError m) = m"
| "str_exn (RuntimeError m) = m"
| "str_exn (TypeError m) = m"

section \<open>The scan payload: ports and device records\<close>

text \<open>The dictionaries built by \<^verbatim>\<open>NmapParser._parse_ports\<close>.\<close>

record service =
  s_name :: string
  s_product :: string
  s_version :: string
  s_extrainfo :: string
  s_ostype :: string
  s_method :: string
  s_conf :: string
  s_cpe :: "string list option"

record script =
  sc_id :: string
  sc_output :: string
  sc_data :: "(string \<times> string) list option"

record port =
  p_port :: string
  p_protocol :: string
  p_state :: "string option"
  p_reason :: "string option"
  p_service :: "service option"
  p_scripts :: "script list option"

record uptime =
  up_seconds :: string
  up_lastboot :: string

text \<open>The \<^verbatim>\<open>metadata\<close> dictionary of a device; a key that was never set is \<open>None\<close>.\<close>

record metadata =
  md_ports :: "port list option"
  md_open_ports_count :: "nat option"
  md_all_hostnames :: "string list option"
  md_uptime :: "uptime option"
  md_distance :: "string option"

definition empty_metadata :: metadata where
  "empty_metadata = \<lparr>md_ports = None, md_open_ports_count = None, md_all_hostnames = None,
     md_uptime = None, md_distance = None\<rparr>"

text \<open>The device dictionary handed to \<^verbatim>\<open>Database.add_device\<close>.\<close>

record device_data =
  ip_address :: "string option"
  mac_address :: "string option"
  hostname :: "string option"
  vendor :: "string option"
  oui :: "string option"
  device_type :: "string option"
  os_name :: "string option"
  os_family :: "string option"
  os_version :: "string option"
  os_accuracy :: "int option"
  status :: "string field"
  metadata :: "metadata field"

section \<open>The store (pulse/storage/db.py)\<close>

text \<open>
  The text that \<^verbatim>\<open>json.dumps\<close> writes into a column is kept as the value it encodes:
  \<^verbatim>\<open>json.dumps(None)\<close> is the text \<^verbatim>\<open>null\<close>, and a dictionary is an object.
\<close>

datatype json_text = Json_null | Json_object metadata

definition json_dumps :: "metadata option \<Rightarrow> json_text" where
  "json_dumps v = (case v of None \<Rightarrow> Json_null | Some m \<Rightarrow> Json_object m)"

text \<open>
  Rows of the tables. The file \<^verbatim>\<open>schema.sql\<close> that declares them is not part of the
  sources at hand; the columns are those the statements of \<^verbatim>\<open>db.py\<close> name, together with
  \<open>id\<close>, \<open>first_seen\<close> and \<open>last_seen\<close>. Timestamps are readings of the clock
  (\<^verbatim>\<open>CURRENT_TIMESTAMP\<close>), in seconds.
\<close>

record device_row =
  dev_id :: int
  dev_ip_address :: "string option"
  dev_mac_address :: "string option"
  dev_hostname :: "string option"
  dev_vendor :: "string option"
  dev_oui :: "string option"
  dev_device_type :: "string option"
  dev_os_name :: "string option"
  dev_os_family :: "string option"
  dev_os_version :: "string option"
  dev_os_accuracy :: "int option"
  dev_status :: "string option"
  dev_metadata :: json_text
  dev_first_seen :: nat
  dev_last_seen :: nat

record port_data =
  pd_device_id :: int
  pd_port_number :: int
  pd_protocol :: "string field"
  pd_state :: "string option"
  pd_service_name :: "string option"
  pd_service_product :: "string option"
  pd_service_version :: "string option"
  pd_service_extrainfo :: "string option"

record port_row =
  prt_id :: int
  prt_device_id :: int
  prt_port_number :: int
  prt_protocol :: "string option"
  prt_state :: "string option"
  prt_service_name :: "string option"
  prt_service_product :: "string option"
  prt_service_version :: "string option"
  prt_service_extrainfo :: "string option"
  prt_last_seen :: nat

record event_data =
  ed_event_type :: "string option"
  ed_severity :: "string field"
  ed_device_id :: "int option"
  ed_title :: "string option"
  ed_description :: "string option"
  ed_metadata :: "metadata field"

record event_row =
  ev_id :: int
  ev_event_type :: "string option"
  ev_severity :: "string option"
  ev_device_id :: "int option"
  ev_title :: "string option"
  ev_description :: "string option"
  ev_metadata :: json_text
  ev_created_at :: nat

record task_data =
  td_task_type :: "string option"
  td_target :: "string option"
  td_scan_options :: "string field"
  td_status :: "string field"
  td_priority :: "int field"
  td_scheduled_at :: "nat option"

record task_row =
  tsk_id :: int
  tsk_task_type :: "string option"
  tsk_target :: "string option"
  tsk_scan_options :: "string option"
  tsk_status :: "string option"
  tsk_priority :: "int option"
  tsk_created_at :: nat
  tsk_scheduled_at :: "nat option"
  tsk_started_at :: "nat option"
  tsk_completed_at :: "nat option"
  tsk_updated_at :: nat
  tsk_error :: "string option"

record result_data =
  rd_task_id :: "int option"
  rd_scan_type :: "string option"
  rd_target :: "string option"
  rd_start_time :: "string option"
  rd_end_time :: "string option"
  rd_duration :: "rat option"
  rd_hosts_up :: "int field"
  rd_hosts_down :: "int field"
  rd_hosts_total :: "int field"
  rd_nmap_command :: "string option"
  rd_nmap_version :: "string option"
  rd_raw_output :: "string option"
  rd_xml_output :: "string option"
  rd_summary :: "string option"

record result_row =
  res_id :: int
  res_data :: result_data
  res_hosts_up :: "int option"
  res_hosts_down :: "int option"
  res_hosts_total :: "int option"
  res_created_at :: nat

text \<open>
  The database as one connection sees it. \<open>last_insert_rowid\<close> is the connection's record of
  the row id of its latest successful \<^verbatim>\<open>INSERT\<close>: it is what \<^verbatim>\<open>cursor.lastrowid\<close> reads after
  a statement, and an upsert that takes the \<^verbatim>\<open>DO UPDATE\<close> branch leaves it as it was.
\<close>

record db =
  devices :: "device_row list"
  ports :: "port_row list"
  events :: "event_row list"
  scan_tasks :: "task_row list"
  scan_results :: "result_row list"
  last_insert_rowid :: int

text \<open>
  When \<^verbatim>\<open>sqlite3\<close> raises on a statement (a constraint declared in \<^verbatim>\<open>schema.sql\<close>, a locked
  or unreadable file) is not decided by \<^verbatim>\<open>db.py\<close>. It is a parameter of the model: for
  the store and the statement it gives the message of the exception, or \<open>None\<close> when the
  statement runs. \<^verbatim>\<open>get_cursor\<close> rolls back and re-raises, so a statement that raises leaves
  the store as it was.
\<close>

datatype stmt =
    Add_device device_data
  | Add_port port_data
  | Create_event event_data
  | Save_scan_result result_data
  | Create_scan_task task_data
  | Update_task_status int string "string option"
  | Get_task int

type_synonym faults = "db \<Rightarrow> stmt \<Rightarrow> string option"

text \<open>A new row takes the id after the largest one in its table.\<close>

definition fresh_id :: "int list \<Rightarrow> int" where
  "fresh_id ids = fold max ids 0 + 1"

text \<open>
  \<^verbatim>\<open>ON CONFLICT(ip_address)\<close>: a row conflicts with the values to insert when both hold the
  same non-null address (in SQL a null is distinct from every value in a unique column).
\<close>

definition device_conflict :: "string option \<Rightarrow> device_row \<Rightarrow> bool" where
  "device_conflict ip r = (ip \<noteq> None \<and> dev_ip_address r = ip)"

definition device_excluded :: "nat \<Rightarrow> device_data \<Rightarrow> device_row \<Rightarrow> device_row" where
  "device_excluded now d r = r\<lparr>
     dev_mac_address := mac_address d,
     dev_hostname := hostname d,
     dev_vendor := vendor d,
     dev_oui := oui d,
     dev_device_type := device_type d,
     dev_os_name := os_name d,
     dev_os_family := os_family d,
     dev_os_version := os_version d,
     dev_os_accuracy := os_accuracy d,
     dev_last_seen := now,
     dev_status := dict_get_default (status d) ''up'',
     dev_metadata := json_dumps (dict_get_default (metadata d) empty_metadata)\<rparr>"

text \<open>
  Modelled from the spec: the defaults of the columns that the \<^verbatim>\<open>INSERT\<close> of
  \<^verbatim>\<open>add_device\<close> does not name are declared in \<^verbatim>\<open>schema.sql\<close>, which is missing; the spec
  gives them (``if absent, inserts with first_seen = last_seen = now'').
\<close>

definition device_inserted :: "nat \<Rightarrow> int \<Rightarrow> device_data \<Rightarrow> device_row" where
  "device_inserted now i d = \<lparr>
     dev_id = i,
     dev_ip_address = ip_address d,
     dev_mac_address = mac_address d,
     dev_hostname = hostname d,
     dev_vendor = vendor d,
     dev_oui = oui d,
     dev_device_type = device_type d,
     dev_os_name = os_name d,
     dev_os_family = os_family d,
     dev_os_version = os_version d,
     dev_os_accuracy = os_accuracy d,
     dev_status = dict_get_default (status d) ''up'',
     dev_metadata = json_dumps (dict_get_default (metadata d) empty_metadata),
     dev_first_seen = now,
     dev_last_seen = now\<rparr>"

definition add_device :: "faults \<Rightarrow> nat \<Rightarrow> device_data \<Rightarrow> db \<Rightarrow> exn + (int \<times> db)" where
  "add_device flt now d db =
     (case flt db (Add_device d) of
        Some msg \<Rightarrow> Inl (DatabaseError msg)
      | None \<Rightarrow>
          if list_ex (device_conflict (ip_address d)) (devices db)
          then Inr (last_insert_rowid db,
                    db\<lparr>devices := map (\<lambda>r. if device_conflict (ip_address d) r
                                             then device_excluded now d r else r) (devices db)\<rparr>)
          else let i = fresh_id (map dev_id (devices db))
               in Inr (i, db\<lparr>devices := devices db @ [device_inserted now i d],
                              last_insert_rowid := i\<rparr>))"

text \<open>\<^verbatim>\<open>get_device(ip_address=...)\<close>: the first row with the address.\<close>

definition get_device :: "db \<Rightarrow> string \<Rightarrow> device_row option" where
  "get_device db ip = find (\<lambda>r. dev_ip_address r = Some ip) (devices db)"

definition device_rows_of :: "db \<Rightarrow> string \<Rightarrow> device_row list" where
  "device_rows_of db ip = filter (\<lambda>r. dev_ip_address r = Some ip) (devices db)"

text \<open>The unique index on \<open>ip_address\<close> that \<^verbatim>\<open>ON CONFLICT(ip_address)\<close> relies on.\<close>

definition unique_ips :: "db \<Rightarrow> bool" where
  "unique_ips db = distinct (List.map_filter dev_ip_address (devices db))"

section \<open>Stores and records used in the examples\<close>

definition no_faults :: faults where
  "no_faults db s = None"

definition empty_db :: db where
  "empty_db = \<lparr>devices = [], ports = [], events = [], scan_tasks = [], scan_results = [],
     last_insert_rowid = 0\<rparr>"

definition only_ip :: "string \<Rightarrow> device_data" where
  "only_ip ip = \<lparr>ip_address = Some ip, mac_address = None, hostname = None, vendor = None,
     oui = None, device_type = None, os_name = None, os_family = None, os_version = None,
     os_accuracy = None, status = Absent, metadata = Absent\<rparr>"

definition db_after :: "exn + (int \<times> db) \<Rightarrow> db" where
  "db_after r = snd (projr r)"

section \<open>Python strings\<close>

text \<open>
  Strings are ASCII text, one \<open>char\<close> per character. \<^verbatim>\<open>str.lower\<close> and \<^verbatim>\<open>str.upper\<close> change
  the letters \<^verbatim>\<open>A\<close> to \<^verbatim>\<open>Z\<close> and \<^verbatim>\<open>a\<close> to \<^verbatim>\<open>z\<close> and nothing else.
\<close>

definition lower_char :: "char \<Rightarrow> char" where
  "lower_char c =
     (case map_of (zip ''ABCDEFGHIJKLMNOPQRSTUVWXYZ'' ''abcdefghijklmnopqrstuvwxyz'') c of
        None \<Rightarrow> c
      | Some l \<Rightarrow> l)"

definition upper_char :: "char \<Rightarrow> char" where
  "upper_char c =
     (case map_of (zip ''abcdefghijklmnopqrstuvwxyz'' ''ABCDEFGHIJKLMNOPQRSTUVWXYZ'') c of
        None \<Rightarrow> c
      | Some u \<Rightarrow> u)"

definition str_lower :: "string \<Rightarrow> string" where
  "str_lower s = map lower_char s"

definition str_upper :: "string \<Rightarrow> string" where
  "str_upper s = map upper_char s"

text \<open>\<^verbatim>\<open>sub in s\<close> for strings: \<open>sub\<close> occurs in \<open>s\<close> as a contiguous piece.\<close>

fun starts_with :: "string \<Rightarrow> string \<Rightarrow> bool" where
  "starts_with [] s = True"
| "starts_with (c # cs) [] = False"
| "starts_with (c # cs) (d # ds) = (c = d \<and> starts_with cs ds)"

fun str_in :: "string \<Rightarrow> string \<Rightarrow> bool" where
  "str_in sub [] = (sub = [])"
| "str_in sub (c # cs) = (starts_with sub (c # cs) \<or> str_in sub cs)"

text \<open>\<^verbatim>\<open>s.replace(':', '')\<close>.\<close>

definition strip_colons :: "string \<Rightarrow> string" where
  "strip_colons s = filter (\<lambda>c. c \<noteq> CHR '':'') s"

text \<open>\<^verbatim>\<open>sep.join(xs)\<close>.\<close>

fun str_join :: "string \<Rightarrow> string list \<Rightarrow> string" where
  "str_join sep [] = []"
| "str_join sep [x] = x"
| "str_join sep (x # y # ys) = x @ sep @ str_join sep (y # ys)"

text \<open>
  \<^verbatim>\<open>int(s)\<close> for a string: blanks around the literal are dropped, a sign may come first, and
  the digits may be separated by single underscores. Anything else raises \<^verbatim>\<open>ValueError\<close>.
\<close>

definition is_space :: "char \<Rightarrow> bool" where
  "is_space c = (let n = (of_char c :: nat) in n = 32 \<or> (9 \<le> n \<and> n \<le> 13))"

definition is_digit :: "char \<Rightarrow> bool" where
  "is_digit c = (let n = (of_char c :: nat) in 48 \<le> n \<and> n \<le> 57)"

definition digit_value :: "char \<Rightarrow> nat" where
  "digit_value c = of_char c - 48"

definition str_strip :: "string \<Rightarrow> string" where
  "str_strip s = rev (dropWhile is_space (rev (dropWhile is_space s)))"

fun digits_value :: "nat \<Rightarrow> string \<Rightarrow> nat option" where
  "digits_value acc [] = Some acc"
| "digits_value acc (c # cs) =
     (if c = CHR ''_''
      then (case cs of [] \<Rightarrow> None
            | d # ds \<Rightarrow> if is_digit d then digits_value acc cs else None)
      else if is_digit c then digits_value (10 * acc + digit_value c) cs
      else None)"

definition unsigned_value :: "string \<Rightarrow> nat option" where
  "unsigned_value s =
     (case s of [] \<Rightarrow> None
      | c # cs \<Rightarrow> if is_digit c then digits_value 0 s else None)"

definition int_of_str :: "string \<Rightarrow> int option" where
  "int_of_str s =
     (case str_strip s of
        [] \<Rightarrow> None
      | c # cs \<Rightarrow>
          if c = CHR ''-'' then map_option (\<lambda>n. - int n) (unsigned_value cs)
          else if c = CHR ''+'' then map_option int (unsigned_value cs)
          else map_option int (unsigned_value (c # cs)))"

text \<open>The message of the \<^verbatim>\<open>ValueError\<close>, for text that \<^verbatim>\<open>repr\<close> leaves as it is.\<close>

definition py_int :: "string \<Rightarrow> exn + int" where
  "py_int s =
     (case int_of_str s of
        None \<Rightarrow> Inl (ValueError (''invalid literal for int() with base 10: '' @ [CHR 0x27] @ s @ [CHR 0x27]))
      | Some n \<Rightarrow> Inr n)"

text \<open>\<^verbatim>\<open>str(n)\<close> for an integer.\<close>

definition digit_char :: "nat \<Rightarrow> char" where
  "digit_char n = ''0123456789'' ! n"

fun str_nat :: "nat \<Rightarrow> string" where
  "str_nat n = (if n < 10 then [digit_char n] else str_nat (n div 10) @ [digit_char (n mod 10)])"

declare str_nat.simps [simp del]

definition py_str :: "int \<Rightarrow> string" where
  "py_str i = (if i < 0 then CHR ''-'' # str_nat (nat (- i)) else str_nat (nat i))"

text \<open>
  \<^verbatim>\<open>max(xs, key=f)\<close>: the key of every item is computed in turn, and an item replaces the
  best one so far only when its key is greater, so the first of several maximal items is
  returned. The key may raise.
\<close>

fun max_loop :: "('a \<Rightarrow> exn + int) \<Rightarrow> 'a \<Rightarrow> int \<Rightarrow> 'a list \<Rightarrow> exn + 'a" where
  "max_loop key best bk [] = Inr best"
| "max_loop key best bk (x # xs) =
     (case key x of
        Inl e \<Rightarrow> Inl e
      | Inr k \<Rightarrow> if k > bk then max_loop key x k xs else max_loop key best bk xs)"

definition py_max :: "('a \<Rightarrow> exn + int) \<Rightarrow> 'a list \<Rightarrow> exn + 'a" where
  "py_max key xs =
     (case xs of
        [] \<Rightarrow> Inl (ValueError ''max() arg is an empty sequence'')
      | x # rest \<Rightarrow> (case key x of Inl e \<Rightarrow> Inl e | Inr k \<Rightarrow> max_loop key x k rest))"

text \<open>\<^verbatim>\<open>d[k] = v\<close> on a dictionary kept in insertion order.\<close>

fun dict_set :: "'k \<Rightarrow> 'v \<Rightarrow> ('k \<times> 'v) list \<Rightarrow> ('k \<times> 'v) list" where
  "dict_set k v [] = [(k, v)]"
| "dict_set k v ((k', v') # kvs) = (if k' = k then (k, v) # kvs else (k', v') # dict_set k v kvs)"

section \<open>The parser (pulse/parser/nmap\_parser.py)\<close>

text \<open>
  An element of the tree that \<^verbatim>\<open>xml.etree.ElementTree\<close> builds: tag, attributes, text and
  children. \<^verbatim>\<open>e.get(k, dflt)\<close> reads an attribute, \<^verbatim>\<open>e.find(t)\<close> gives the first child with
  tag \<open>t\<close> and \<^verbatim>\<open>e.findall(t)\<close> all of them, in document order.
\<close>

datatype elem = Elem (el_tag: string) (el_attrib: "(string \<times> string) list")
  (el_text: "string option") (el_children: "elem list")

definition elem_get :: "elem \<Rightarrow> string \<Rightarrow> string \<Rightarrow> string" where
  "elem_get e k dflt = (case map_of (el_attrib e) k of None \<Rightarrow> dflt | Some v \<Rightarrow> v)"

definition elem_findall :: "elem \<Rightarrow> string \<Rightarrow> elem list" where
  "elem_findall e t = filter (\<lambda>c. el_tag c = t) (el_children e)"

definition elem_find :: "elem \<Rightarrow> string \<Rightarrow> elem option" where
  "elem_find e t = find (\<lambda>c. el_tag c = t) (el_children e)"

text \<open>\<^verbatim>\<open>[elem.text for elem in cpe_elems if elem.text]\<close>, kept only when there is a \<^verbatim>\<open>cpe\<close> child.\<close>

definition cpe_texts :: "elem \<Rightarrow> string list option" where
  "cpe_texts e =
     (let cpe_elems = elem_findall e ''cpe''
      in if cpe_elems = [] then None
         else Some (List.map_filter
                (\<lambda>c. case el_text c of None \<Rightarrow> None | Some t \<Rightarrow> if t = [] then None else Some t)
                cpe_elems))"

record os_class =
  oc_type :: string
  oc_vendor :: string
  oc_osfamily :: string
  oc_osgen :: string
  oc_accuracy :: string
  oc_cpe :: "string list option"

record os_match =
  om_name :: string
  om_accuracy :: string
  om_line :: string
  om_classes :: "os_class list"

record os_info =
  os_matches :: "os_match list"
  os_classes :: "os_class list"
  os_best_match :: "os_match option"

definition parse_os_class :: "elem \<Rightarrow> os_class" where
  "parse_os_class class_elem = \<lparr>
     oc_type = elem_get class_elem ''type'' '''',
     oc_vendor = elem_get class_elem ''vendor'' '''',
     oc_osfamily = elem_get class_elem ''osfamily'' '''',
     oc_osgen = elem_get class_elem ''osgen'' '''',
     oc_accuracy = elem_get class_elem ''accuracy'' '''',
     oc_cpe = cpe_texts class_elem\<rparr>"

definition parse_os_match :: "elem \<Rightarrow> os_match" where
  "parse_os_match match_elem = \<lparr>
     om_name = elem_get match_elem ''name'' '''',
     om_accuracy = elem_get match_elem ''accuracy'' '''',
     om_line = elem_get match_elem ''line'' '''',
     om_classes = map parse_os_class (elem_findall match_elem ''osclass'')\<rparr>"

text \<open>\<^verbatim>\<open>_parse_os\<close>. The key of the maximum is \<^verbatim>\<open>int(x.get('accuracy', 0))\<close>.\<close>

definition parse_os :: "elem \<Rightarrow> exn + os_info option" where
  "parse_os host_elem =
     (case elem_find host_elem ''os'' of
        None \<Rightarrow> Inr None
      | Some os_elem \<Rightarrow>
          let matches = map parse_os_match (elem_findall os_elem ''osmatch'')
          in if matches \<noteq> []
             then (case py_max (\<lambda>x. py_int (om_accuracy x)) matches of
                     Inl e \<Rightarrow> Inl e
                   | Inr best_match \<Rightarrow>
                       Inr (Some \<lparr>os_matches = matches, os_classes = [],
                                  os_best_match = Some best_match\<rparr>))
             else Inr None)"

text \<open>\<^verbatim>\<open>_parse_addresses\<close>: a later address of a kind replaces an earlier one.\<close>

record addresses =
  ad_ip_address :: "string option"
  ad_ipv6_address :: "string option"
  ad_mac_address :: "string option"
  ad_vendor :: "string option"

definition parse_address :: "addresses \<Rightarrow> elem \<Rightarrow> addresses" where
  "parse_address addresses addr_elem =
     (let addr_type = elem_get addr_elem ''addrtype'' ''unknown'';
          addr = elem_get addr_elem ''addr'' ''''
      in if addr_type = ''ipv4'' then addresses\<lparr>ad_ip_address := Some addr\<rparr>
         else if addr_type = ''ipv6'' then addresses\<lparr>ad_ipv6_address := Some addr\<rparr>
         else if addr_type = ''mac''
         then (let vendor = elem_get addr_elem ''vendor'' ''''
               in if vendor \<noteq> []
                  then addresses\<lparr>ad_mac_address := Some addr, ad_vendor := Some vendor\<rparr>
                  else addresses\<lparr>ad_mac_address := Some addr\<rparr>)
         else addresses)"

definition parse_addresses :: "elem \<Rightarrow> addresses" where
  "parse_addresses host_elem =
     foldl parse_address
       \<lparr>ad_ip_address = None, ad_ipv6_address = None, ad_mac_address = None, ad_vendor = None\<rparr>
       (elem_findall host_elem ''address'')"

definition parse_hostnames :: "elem \<Rightarrow> string list" where
  "parse_hostnames host_elem =
     (case elem_find host_elem ''hostnames'' of
        None \<Rightarrow> []
      | Some hostnames_elem \<Rightarrow>
          filter (\<lambda>name. name \<noteq> [])
            (map (\<lambda>hostname_elem. elem_get hostname_elem ''name'' '''')
               (elem_findall hostnames_elem ''hostname'')))"

definition parse_script :: "elem \<Rightarrow> script" where
  "parse_script script_elem =
     (let elem_data = foldl (\<lambda>acc e.
                         let key = elem_get e ''key'' '''';
                             v = (case el_text e of None \<Rightarrow> [] | Some t \<Rightarrow> t)
                         in if key \<noteq> [] then dict_set key v acc else acc)
                       [] (elem_findall script_elem ''elem'')
      in \<lparr>sc_id = elem_get script_elem ''id'' '''',
          sc_output = elem_get script_elem ''output'' '''',
          sc_data = (if elem_data \<noteq> [] then Some elem_data else None)\<rparr>)"

definition parse_service :: "elem \<Rightarrow> service" where
  "parse_service service_elem = \<lparr>
     s_name = elem_get service_elem ''name'' '''',
     s_product = elem_get service_elem ''product'' '''',
     s_version = elem_get service_elem ''version'' '''',
     s_extrainfo = elem_get service_elem ''extrainfo'' '''',
     s_ostype = elem_get service_elem ''ostype'' '''',
     s_method = elem_get service_elem ''method'' '''',
     s_conf = elem_get service_elem ''conf'' '''',
     s_cpe = cpe_texts service_elem\<rparr>"

definition parse_port :: "elem \<Rightarrow> port" where
  "parse_port port_elem =
     (let scripts = map parse_script (elem_findall port_elem ''script'')
      in \<lparr>p_port = elem_get port_elem ''portid'' '''',
          p_protocol = elem_get port_elem ''protocol'' ''tcp'',
          p_state = map_option (\<lambda>state_elem. elem_get state_elem ''state'' '''')
                      (elem_find port_elem ''state''),
          p_reason = map_option (\<lambda>state_elem. elem_get state_elem ''reason'' '''')
                       (elem_find port_elem ''state''),
          p_service = map_option parse_service (elem_find port_elem ''service''),
          p_scripts = (if scripts \<noteq> [] then Some scripts else None)\<rparr>)"

definition parse_ports :: "elem \<Rightarrow> port list" where
  "parse_ports host_elem =
     (case elem_find host_elem ''ports'' of
        None \<Rightarrow> []
      | Some ports_elem \<Rightarrow> map parse_port (elem_findall ports_elem ''port''))"

definition parse_host_scripts :: "elem \<Rightarrow> script list" where
  "parse_host_scripts host_elem =
     (case elem_find host_elem ''hostscript'' of
        None \<Rightarrow> []
      | Some hostscript_elem \<Rightarrow> map parse_script (elem_findall hostscript_elem ''script''))"

text \<open>The dictionary of a host; a key that \<^verbatim>\<open>_parse_host\<close> does not set is \<open>None\<close>.\<close>

record host =
  h_status :: string
  h_reason :: string
  h_ip_address :: "string option"
  h_ipv6_address :: "string option"
  h_mac_address :: "string option"
  h_vendor :: "string option"
  h_hostnames :: "string list option"
  h_hostname :: "string option"
  h_os :: "os_info option"
  h_ports :: "port list option"
  h_host_scripts :: "script list option"
  h_uptime :: "uptime option"
  h_distance :: "string option"

definition parse_host :: "elem \<Rightarrow> exn + host option" where
  "parse_host host_elem =
     (case elem_find host_elem ''status'' of
        None \<Rightarrow> Inr None
      | Some status_elem \<Rightarrow>
          let addresses = parse_addresses host_elem;
              hostnames = parse_hostnames host_elem
          in case parse_os host_elem of
               Inl e \<Rightarrow> Inl e
             | Inr os_info \<Rightarrow>
                 let ports = parse_ports host_elem;
                     host_scripts = parse_host_scripts host_elem
                 in Inr (Some \<lparr>
                      h_status = elem_get status_elem ''state'' ''unknown'',
                      h_reason = elem_get status_elem ''reason'' '''',
                      h_ip_address = ad_ip_address addresses,
                      h_ipv6_address = ad_ipv6_address addresses,
                      h_mac_address = ad_mac_address addresses,
                      h_vendor = ad_vendor addresses,
                      h_hostnames = (if hostnames \<noteq> [] then Some hostnames else None),
                      h_hostname = (case hostnames of [] \<Rightarrow> None | n # ns \<Rightarrow> Some n),
                      h_os = os_info,
                      h_ports = (if ports \<noteq> [] then Some ports else None),
                      h_host_scripts = (if host_scripts \<noteq> [] then Some host_scripts else None),
                      h_uptime = map_option
                        (\<lambda>uptime_elem. \<lparr>up_seconds = elem_get uptime_elem ''seconds'' '''',
                                        up_lastboot = elem_get uptime_elem ''lastboot'' ''''\<rparr>)
                        (elem_find host_elem ''uptime''),
                      h_distance = map_option (\<lambda>distance_elem. elem_get distance_elem ''value'' '''')
                        (elem_find host_elem ''distance'')\<rparr>))"

text \<open>The loop of \<^verbatim>\<open>parse_xml\<close> over the \<^verbatim>\<open>host\<close> elements.\<close>

fun parse_hosts :: "elem list \<Rightarrow> exn + host list" where
  "parse_hosts [] = Inr []"
| "parse_hosts (host_elem # rest) =
     (case parse_host host_elem of
        Inl e \<Rightarrow> Inl e
      | Inr host_data \<Rightarrow>
          (case parse_hosts rest of
             Inl e \<Rightarrow> Inl e
           | Inr hosts \<Rightarrow>
               Inr (case host_data of None \<Rightarrow> hosts | Some h \<Rightarrow> h # hosts)))"

record scan_info =
  si_nmap_version :: string
  si_args :: string
  si_type :: "string option"
  si_protocol :: "string option"
  si_services :: "string option"
  si_start_time :: string

text \<open>
  \<^verbatim>\<open>_parse_scan_info\<close>. The conversion \<^verbatim>\<open>datetime.fromtimestamp(n).isoformat()\<close> belongs to the
  Python library and is a parameter, \<open>None\<close> where it raises; the source keeps the
  attribute as it is when the conversion or \<^verbatim>\<open>int\<close> raises.
\<close>

definition parse_scan_info :: "(int \<Rightarrow> string option) \<Rightarrow> elem \<Rightarrow> scan_info" where
  "parse_scan_info isoformat root_elem =
     (let scaninfo_elem = elem_find root_elem ''scaninfo'';
          start = elem_get root_elem ''start'' ''''
      in \<lparr>si_nmap_version = elem_get root_elem ''version'' '''',
          si_args = elem_get root_elem ''args'' '''',
          si_type = map_option (\<lambda>e. elem_get e ''type'' '''') scaninfo_elem,
          si_protocol = map_option (\<lambda>e. elem_get e ''protocol'' '''') scaninfo_elem,
          si_services = map_option (\<lambda>e. elem_get e ''services'' '''') scaninfo_elem,
          si_start_time =
            (if start \<noteq> []
             then (case py_int start of
                     Inl e \<Rightarrow> start
                   | Inr n \<Rightarrow> (case isoformat n of None \<Rightarrow> start | Some t \<Rightarrow> t))
             else start)\<rparr>)"

record run_stats =
  rs_end_time :: "string option"
  rs_elapsed :: "string option"
  rs_hosts_up :: "int option"
  rs_hosts_down :: "int option"
  rs_hosts_total :: "int option"

text \<open>\<^verbatim>\<open>int(e.get(k, 0))\<close>: the integer default when the attribute is missing.\<close>

definition int_attr :: "elem \<Rightarrow> string \<Rightarrow> exn + int" where
  "int_attr e k = (case map_of (el_attrib e) k of None \<Rightarrow> Inr 0 | Some v \<Rightarrow> py_int v)"

definition parse_run_stats :: "elem \<Rightarrow> exn + run_stats" where
  "parse_run_stats root_elem =
     (case elem_find root_elem ''runstats'' of
        None \<Rightarrow> Inr \<lparr>rs_end_time = None, rs_elapsed = None, rs_hosts_up = None,
                      rs_hosts_down = None, rs_hosts_total = None\<rparr>
      | Some runstats_elem \<Rightarrow>
          let finished_elem = elem_find runstats_elem ''finished'';
              end_time = map_option (\<lambda>e. elem_get e ''timestr'' '''') finished_elem;
              elapsed = map_option (\<lambda>e. elem_get e ''elapsed'' '''') finished_elem
          in case elem_find runstats_elem ''hosts'' of
               None \<Rightarrow> Inr \<lparr>rs_end_time = end_time, rs_elapsed = elapsed, rs_hosts_up = None,
                             rs_hosts_down = None, rs_hosts_total = None\<rparr>
             | Some hosts_elem \<Rightarrow>
                 (case int_attr hosts_elem ''up'' of
                    Inl e \<Rightarrow> Inl e
                  | Inr hosts_up \<Rightarrow>
                      (case int_attr hosts_elem ''down'' of
                         Inl e \<Rightarrow> Inl e
                       | Inr hosts_down \<Rightarrow>
                           (case int_attr hosts_elem ''total'' of
                              Inl e \<Rightarrow> Inl e
                            | Inr hosts_total \<Rightarrow>
                                Inr \<lparr>rs_end_time = end_time, rs_elapsed = elapsed,
                                     rs_hosts_up = Some hosts_up,
                                     rs_hosts_down = Some hosts_down,
                                     rs_hosts_total = Some hosts_total\<rparr>))))"

text \<open>
  The dictionary that \<^verbatim>\<open>parse_xml\<close> returns: either \<^verbatim>\<open>{'error': message}\<close> or the parsed
  scan.
\<close>

record parsed_scan =
  ps_scan_info :: scan_info
  ps_hosts :: "host list"
  ps_run_stats :: run_stats
  ps_hosts_up :: int
  ps_hosts_down :: int
  ps_hosts_total :: int

datatype parsed_data = Parse_failed string | Parsed parsed_scan

definition get_or :: "'a option \<Rightarrow> 'a \<Rightarrow> 'a" where
  "get_or v dflt = (case v of None \<Rightarrow> dflt | Some x \<Rightarrow> x)"

text \<open>
  \<^verbatim>\<open>parse_xml\<close>. \<^verbatim>\<open>ET.fromstring\<close> is the library's XML reader and is a parameter: it gives
  the root element, or the message of the \<^verbatim>\<open>ParseError\<close> for text that is not well-formed.
  An argument that is \<^verbatim>\<open>None\<close> or empty is \<open>None\<close> or \<open>Some []\<close>.
\<close>

definition parse_xml ::
  "(string \<Rightarrow> string + elem) \<Rightarrow> (int \<Rightarrow> string option) \<Rightarrow> string option \<Rightarrow> parsed_data" where
  "parse_xml fromstring isoformat xml_output =
     (if xml_output = None \<or> xml_output = Some []
      then Parse_failed ''Empty XML output''
      else case fromstring (the xml_output) of
             Inl msg \<Rightarrow> Parse_failed (''XML parse error: '' @ msg)
           | Inr root_elem \<Rightarrow>
               let scan_info = parse_scan_info isoformat root_elem
               in case parse_hosts (elem_findall root_elem ''host'') of
                    Inl e \<Rightarrow> Parse_failed (''Error parsing XML: '' @ str_exn e)
                  | Inr hosts \<Rightarrow>
                      (case parse_run_stats root_elem of
                         Inl e \<Rightarrow> Parse_failed (''Error parsing XML: '' @ str_exn e)
                       | Inr run_stats \<Rightarrow>
                           Parsed \<lparr>ps_scan_info = scan_info, ps_hosts = hosts,
                             ps_run_stats = run_stats,
                             ps_hosts_up = get_or (rs_hosts_up run_stats) 0,
                             ps_hosts_down = get_or (rs_hosts_down run_stats) 0,
                             ps_hosts_total = get_or (rs_hosts_total run_stats) 0\<rparr>))"

text \<open>\<^verbatim>\<open>extract_devices\<close>: the body of the loop for one host that is up, then the loop.\<close>

definition extract_device :: "host \<Rightarrow> exn + device_data" where
  "extract_device host =
     (let oui = (case h_mac_address host of
                   None \<Rightarrow> None
                 | Some mac \<Rightarrow> if mac \<noteq> [] then Some (str_upper (strip_colons (take 8 mac)))
                               else None);
          ports = get_or (h_ports host) [];
          metadata = \<lparr>
            md_ports = (if ports \<noteq> [] then Some ports else None),
            md_open_ports_count =
              (if ports \<noteq> [] then Some (length (filter (\<lambda>p. p_state p = Some ''open'') ports))
               else None),
            md_all_hostnames = (case h_hostnames host of
                                  None \<Rightarrow> None
                                | Some hs \<Rightarrow> if hs \<noteq> [] then Some hs else None),
            md_uptime = h_uptime host,
            md_distance = (case h_distance host of
                             None \<Rightarrow> None
                           | Some distance \<Rightarrow> if distance \<noteq> [] then Some distance else None)\<rparr>;
          device = \<lparr>
            ip_address = h_ip_address host,
            mac_address = h_mac_address host,
            hostname = h_hostname host,
            vendor = h_vendor host,
            oui = oui,
            device_type = None,
            os_name = None,
            os_family = None,
            os_version = None,
            os_accuracy = None,
            status = Val (h_status host),
            metadata = Val metadata\<rparr>
      in case h_os host of
           None \<Rightarrow> Inr device
         | Some os_info \<Rightarrow>
             (case os_best_match os_info of
                None \<Rightarrow> Inr device
              | Some best_match \<Rightarrow>
                  (case py_int (om_accuracy best_match) of
                     Inl e \<Rightarrow> Inl e
                   | Inr accuracy \<Rightarrow>
                       (case om_classes best_match of
                          [] \<Rightarrow> Inr (device\<lparr>os_name := Some (om_name best_match),
                                            os_accuracy := Some accuracy\<rparr>)
                        | c # cs \<Rightarrow> Inr (device\<lparr>os_name := Some (om_name best_match),
                                              os_accuracy := Some accuracy,
                                              os_family := Some (oc_osfamily c),
                                              os_version := Some (oc_osgen c)\<rparr>)))))"

fun extract_hosts :: "host list \<Rightarrow> exn + device_data list" where
  "extract_hosts [] = Inr []"
| "extract_hosts (host # rest) =
     (if h_status host \<noteq> ''up'' then extract_hosts rest
      else case extract_device host of
             Inl e \<Rightarrow> Inl e
           | Inr device \<Rightarrow>
               (case extract_hosts rest of
                  Inl e \<Rightarrow> Inl e
                | Inr devs \<Rightarrow> Inr (device # devs)))"

text \<open>\<^verbatim>\<open>parsed_data.get('hosts', [])\<close>.\<close>

definition payload_hosts :: "parsed_data \<Rightarrow> host list" where
  "payload_hosts parsed_data = (case parsed_data of Parse_failed msg \<Rightarrow> [] | Parsed p \<Rightarrow> ps_hosts p)"

definition extract_devices :: "parsed_data \<Rightarrow> exn + device_data list" where
  "extract_devices parsed_data = extract_hosts (payload_hosts parsed_data)"









definition rejecting_reader :: "string \<Rightarrow> string + elem" where
  "rejecting_reader s = Inl ''syntax error: line 1, column 0''"

definition no_isoformat :: "int \<Rightarrow> string option" where
  "no_isoformat n = None"

text \<open>A host with three operating system candidates.\<close>

definition osmatch_elem :: "string \<Rightarrow> string \<Rightarrow> elem" where
  "osmatch_elem name accuracy =
     Elem ''osmatch'' [(''name'', name), (''accuracy'', accuracy), (''line'', ''1'')] None []"

definition host_elem_three_matches :: elem where
  "host_elem_three_matches =
     Elem ''host'' [] None
       [Elem ''status'' [(''state'', ''up''), (''reason'', ''arp-response'')] None [],
        Elem ''address'' [(''addr'', ''192.168.1.1''), (''addrtype'', ''ipv4'')] None [],
        Elem ''os'' [] None
          [osmatch_elem ''Linux 2.6'' ''95'',
           osmatch_elem ''Linux 3.X'' ''98'',
           osmatch_elem ''Linux 4.X'' ''98'']]"


text \<open>
  A host whose second operating system candidate has no \<^verbatim>\<open>accuracy\<close> attribute, a document
  with that host alone, and the reader of that document.
\<close>

definition host_elem_missing_accuracy :: elem where
  "host_elem_missing_accuracy =
     Elem ''host'' [] None
       [Elem ''status'' [(''state'', ''up''), (''reason'', ''arp-response'')] None [],
        Elem ''address'' [(''addr'', ''192.168.1.1''), (''addrtype'', ''ipv4'')] None [],
        Elem ''os'' [] None
          [osmatch_elem ''Linux 2.6'' ''95'',
           Elem ''osmatch'' [(''name'', ''Linux 3.X''), (''line'', ''2'')] None []]]"

definition missing_accuracy_root :: elem where
  "missing_accuracy_root = Elem ''nmaprun'' [(''scanner'', ''nmap'')] None [host_elem_missing_accuracy]"

definition missing_accuracy_reader :: "string \<Rightarrow> string + elem" where
  "missing_accuracy_reader s = Inr missing_accuracy_root"
section \<open>Properties used in the proofs about the parser\<close>



section \<open>The scanner (pulse/scanner/engine.py)\<close>

text \<open>
  \<^verbatim>\<open>Config.get(key, default)\<close>, for the keys that hold text and those that hold integers.
\<close>

record config =
  cfg_text :: "string \<Rightarrow> string option"
  cfg_int :: "string \<Rightarrow> int option"

definition config_get_text :: "config \<Rightarrow> string \<Rightarrow> string \<Rightarrow> string" where
  "config_get_text cfg key dflt = get_or (cfg_text cfg key) dflt"

definition config_get_int :: "config \<Rightarrow> string \<Rightarrow> int \<Rightarrow> int" where
  "config_get_int cfg key dflt = get_or (cfg_int cfg key) dflt"

record scanner =
  nmap_path :: string
  scanner_config :: "config option"

text \<open>
  What the scanner gets from outside during one call of \<^verbatim>\<open>scan\<close>: \<^verbatim>\<open>shlex.split\<close>, the clock
  (in seconds) and its \<^verbatim>\<open>isoformat\<close>, the name of the scratch file, what \<^verbatim>\<open>subprocess.run\<close>
  does with the command, the contents of the scratch file afterwards when it exists and is
  not empty, and the answer of \<^verbatim>\<open>get_nmap_version\<close>.
\<close>

datatype proc_outcome =
    Finished int string string
  | Timeout_expired
  | Raised exn

record scan_env =
  env_shlex_split :: "string \<Rightarrow> exn + string list"
  env_isoformat :: "rat \<Rightarrow> string"
  env_start_time :: rat
  env_end_time :: rat
  env_xml_path :: string
  env_outcome :: proc_outcome
  env_xml_file :: "string option"
  env_nmap_version :: string

text \<open>The result dictionary of a scan; a key that is not set is \<open>None\<close>.\<close>

record scan_result =
  sr_success :: bool
  sr_error :: "string option"
  sr_return_code :: "int option"
  sr_command :: "string option"
  sr_target :: "string option"
  sr_scan_type :: "string option"
  sr_start_time :: "string option"
  sr_end_time :: "string option"
  sr_duration :: "rat option"
  sr_stdout :: "string option"
  sr_stderr :: "string option"
  sr_xml_output :: "string option"
  sr_nmap_version :: "string option"
  sr_parsed_data :: "parsed_data option"
  sr_devices :: "device_data list option"
  sr_task_id :: "int option"

definition failed_result :: "string \<Rightarrow> scan_result" where
  "failed_result msg = \<lparr>
     sr_success = False, sr_error = Some msg, sr_return_code = None, sr_command = None,
     sr_target = None, sr_scan_type = None, sr_start_time = None, sr_end_time = None,
     sr_duration = None, sr_stdout = None, sr_stderr = None, sr_xml_output = None,
     sr_nmap_version = None, sr_parsed_data = None, sr_devices = None, sr_task_id = None\<rparr>"

text \<open>The options of a scan type, from the configuration when the scanner has one.\<close>

definition scan_type_options :: "scanner \<Rightarrow> string \<Rightarrow> string option" where
  "scan_type_options sc scan_type =
     (let opt = (\<lambda>key dflt. case scanner_config sc of
                               None \<Rightarrow> dflt
                             | Some cfg \<Rightarrow> config_get_text cfg key dflt)
      in if scan_type = ''discovery''
         then Some (opt ''scanner.nmap.discovery_options'' ''-sn -T4'')
         else if scan_type = ''quick''
         then Some (opt ''scanner.nmap.quick_scan_options'' ''-F -sV -T4'')
         else if scan_type = ''deep''
         then Some (opt ''scanner.nmap.deep_scan_options''
                      ''-sV -O -A --script=default,discovery -T4'')
         else if scan_type = ''full''
         then Some (opt ''scanner.nmap.full_scan_options'' ''-p- -sV -T4'')
         else None)"

text \<open>
  \<^verbatim>\<open>_build_command\<close>. The target comes from the task and may be \<^verbatim>\<open>None\<close>; the command is
  a list whose last item is the target.
\<close>

definition build_command ::
  "(string \<Rightarrow> exn + string list) \<Rightarrow> scanner \<Rightarrow> string option \<Rightarrow> string \<Rightarrow> string option \<Rightarrow>
     string option \<Rightarrow> exn + string option list" where
  "build_command shlex_split sc target scan_type options xml_output =
     (let chosen = (case options of
                      None \<Rightarrow> scan_type_options sc scan_type
                    | Some opts \<Rightarrow> if opts \<noteq> [] then Some opts
                                   else scan_type_options sc scan_type);
          xml_args = (case xml_output of
                        None \<Rightarrow> []
                      | Some path \<Rightarrow> if path \<noteq> [] then [''-oX'', path] else [])
      in case chosen of
           None \<Rightarrow> Inr (map Some ([nmap_path sc] @ xml_args) @ [target])
         | Some opts \<Rightarrow>
             (case shlex_split opts of
                Inl e \<Rightarrow> Inl e
              | Inr args \<Rightarrow> Inr (map Some ([nmap_path sc] @ args @ xml_args) @ [target])))"

text \<open>\<^verbatim>\<open>' '.join(cmd)\<close>, which raises \<^verbatim>\<open>TypeError\<close> at an item that is \<^verbatim>\<open>None\<close>.\<close>

fun join_items :: "nat \<Rightarrow> string option list \<Rightarrow> exn + string list" where
  "join_items i [] = Inr []"
| "join_items i (None # xs) =
     Inl (TypeError (''sequence item '' @ py_str (int i) @ '': expected str instance, NoneType found''))"
| "join_items i (Some x # xs) =
     (case join_items (Suc i) xs of Inl e \<Rightarrow> Inl e | Inr ys \<Rightarrow> Inr (x # ys))"

definition join_command :: "string option list \<Rightarrow> exn + string" where
  "join_command cmd = (case join_items 0 cmd of Inl e \<Rightarrow> Inl e | Inr xs \<Rightarrow> Inr (str_join '' '' xs))"

text \<open>
  \<^verbatim>\<open>scan\<close>. The three \<^verbatim>\<open>except\<close> clauses give the three kinds of failed result; the name of
  the scratch file is taken as given (\<^verbatim>\<open>mkstemp\<close> is called before the \<^verbatim>\<open>try\<close>).
\<close>

definition scan_exception :: "scan_env \<Rightarrow> string option \<Rightarrow> string \<Rightarrow> exn \<Rightarrow> scan_result" where
  "scan_exception env target scan_type e =
     (failed_result (str_exn e))\<lparr>
        sr_target := target,
        sr_scan_type := Some scan_type,
        sr_start_time := Some (env_isoformat env (env_start_time env))\<rparr>"

definition scan ::
  "scanner \<Rightarrow> scan_env \<Rightarrow> string option \<Rightarrow> string \<Rightarrow> string option \<Rightarrow> int \<Rightarrow> scan_result" where
  "scan sc env target scan_type options timeout =
     (case build_command (env_shlex_split env) sc target scan_type options
             (Some (env_xml_path env)) of
        Inl e \<Rightarrow> scan_exception env target scan_type e
      | Inr cmd \<Rightarrow>
          (case join_command cmd of
             Inl e \<Rightarrow> scan_exception env target scan_type e
           | Inr cmd_str \<Rightarrow>
               (case env_outcome env of
                  Raised e \<Rightarrow> scan_exception env target scan_type e
                | Timeout_expired \<Rightarrow>
                    (failed_result (''Scan timeout after '' @ py_str timeout @ ''s''))\<lparr>
                       sr_command := Some cmd_str,
                       sr_target := target,
                       sr_scan_type := Some scan_type,
                       sr_start_time := Some (env_isoformat env (env_start_time env)),
                       sr_duration := Some (of_int timeout)\<rparr>
                | Finished returncode out err \<Rightarrow>
                    \<lparr>sr_success = (returncode = 0),
                     sr_error = None,
                     sr_return_code = Some returncode,
                     sr_command = Some cmd_str,
                     sr_target = target,
                     sr_scan_type = Some scan_type,
                     sr_start_time = Some (env_isoformat env (env_start_time env)),
                     sr_end_time = Some (env_isoformat env (env_end_time env)),
                     sr_duration = Some (env_end_time env - env_start_time env),
                     sr_stdout = Some out,
                     sr_stderr = Some err,
                     sr_xml_output = env_xml_file env,
                     sr_nmap_version = Some (env_nmap_version env),
                     sr_parsed_data = None,
                     sr_devices = None,
                     sr_task_id = None\<rparr>)))"

definition discovery_scan :: "scanner \<Rightarrow> scan_env \<Rightarrow> string option \<Rightarrow> int \<Rightarrow> scan_result" where
  "discovery_scan sc env network timeout = scan sc env network ''discovery'' None timeout"

definition quick_scan :: "scanner \<Rightarrow> scan_env \<Rightarrow> string option \<Rightarrow> int \<Rightarrow> scan_result" where
  "quick_scan sc env target timeout = scan sc env target ''quick'' None timeout"

definition deep_scan :: "scanner \<Rightarrow> scan_env \<Rightarrow> string option \<Rightarrow> int \<Rightarrow> scan_result" where
  "deep_scan sc env target timeout = scan sc env target ''deep'' None timeout"

definition full_scan :: "scanner \<Rightarrow> scan_env \<Rightarrow> string option \<Rightarrow> int \<Rightarrow> scan_result" where
  "full_scan sc env target timeout = scan sc env target ''full'' None timeout"

text \<open>
  An environment for the examples: the options are split at single blanks, the clock text
  is left open, and the external process runs into the timeout.
\<close>

fun split_blanks :: "string \<Rightarrow> string \<Rightarrow> string list" where
  "split_blanks word [] = (if word = [] then [] else [word])"
| "split_blanks word (c # cs) =
     (if c = CHR '' '' then (if word = [] then split_blanks [] cs else word # split_blanks [] cs)
      else split_blanks (word @ [c]) cs)"

definition sample_scanner :: scanner where
  "sample_scanner = \<lparr>nmap_path = ''/usr/bin/nmap'', scanner_config = None\<rparr>"

definition timeout_env :: scan_env where
  "timeout_env = \<lparr>
     env_shlex_split = (\<lambda>s. Inr (split_blanks [] s)),
     env_isoformat = (\<lambda>t. ''2024-01-01T00:00:00''),
     env_start_time = 0,
     env_end_time = 600,
     env_xml_path = ''/tmp/nmap_x.xml'',
     env_outcome = Timeout_expired,
     env_xml_file = None,
     env_nmap_version = ''Nmap version 7.80''\<rparr>"

section \<open>The classifier (pulse/services/device\_recognition.py)\<close>

text \<open>
  A rule of \<^verbatim>\<open>recognition.classification\<close>; each of its three keys may be missing. The rules
  are a dictionary from device type to rule, kept in the order of definition.
\<close>

record rule =
  r_ports :: "int list option"
  r_keywords :: "string list option"
  r_services :: "string list option"

type_synonym rules = "(string \<times> rule) list"

text \<open>
  \<^verbatim>\<open>device_data.get('metadata', {}).get('ports')\<close>: a metadata that is \<^verbatim>\<open>None\<close> has no
  \<^verbatim>\<open>get\<close>. A missing or empty port list counts as no ports.
\<close>

definition metadata_ports :: "device_data \<Rightarrow> exn + port list" where
  "metadata_ports d =
     (case dict_get_default (metadata d) empty_metadata of
        None \<Rightarrow> Inl (AttributeError ''NoneType object has no attribute get'')
      | Some md \<Rightarrow> Inr (get_or (md_ports md) []))"





text \<open>The score of one rule: the body of the loop over the rules.\<close>

definition port_points :: "int set \<Rightarrow> rule \<Rightarrow> int" where
  "port_points open_ports rules =
     (case r_ports rules of
        None \<Rightarrow> 0
      | Some ps \<Rightarrow>
          (let matching_ports = open_ports \<inter> set ps
           in if matching_ports \<noteq> {} then int (card matching_ports) * 10 else 0))"

definition keyword_points :: "string \<Rightarrow> rule \<Rightarrow> int" where
  "keyword_points txt rules =
     (case r_keywords rules of
        None \<Rightarrow> 0
      | Some ks \<Rightarrow> foldl (\<lambda>score keyword. if str_in (str_lower keyword) txt then score + 20
                                          else score) 0 ks)"

definition service_points :: "string set \<Rightarrow> rule \<Rightarrow> int" where
  "service_points services rules =
     (case r_services rules of
        None \<Rightarrow> 0
      | Some ss \<Rightarrow>
          (let matching_services = services \<inter> set (map str_lower ss)
           in if matching_services \<noteq> {} then int (card matching_services) * 15 else 0))"

definition rule_score :: "int set \<Rightarrow> string set \<Rightarrow> string \<Rightarrow> rule \<Rightarrow> int" where
  "rule_score open_ports services txt rules =
     port_points open_ports rules + keyword_points txt rules + service_points services rules"





text \<open>Rules and a device for the examples.\<close>

definition sample_rules :: rules where
  "sample_rules =
     [(''router'', \<lparr>r_ports = Some [23, 161], r_keywords = Some [''Cisco'', ''router''],
                   r_services = Some [''telnet'']\<rparr>),
      (''printer'', \<lparr>r_ports = Some [9100, 631], r_keywords = Some [''printer''],
                    r_services = None\<rparr>)]"


section \<open>The other statements of the store\<close>

text \<open>
  \<^verbatim>\<open>ON CONFLICT(device_id, port_number, protocol)\<close>: a port row conflicts with the values to
  insert when it has the same device, number and (non-null) protocol.
\<close>

definition port_conflict :: "port_data \<Rightarrow> port_row \<Rightarrow> bool" where
  "port_conflict pd r =
     (prt_device_id r = pd_device_id pd \<and> prt_port_number r = pd_port_number pd \<and>
      dict_get_default (pd_protocol pd) ''tcp'' \<noteq> None \<and>
      prt_protocol r = dict_get_default (pd_protocol pd) ''tcp'')"

definition port_excluded :: "nat \<Rightarrow> port_data \<Rightarrow> port_row \<Rightarrow> port_row" where
  "port_excluded now pd r = r\<lparr>
     prt_state := pd_state pd,
     prt_service_name := pd_service_name pd,
     prt_service_product := pd_service_product pd,
     prt_service_version := pd_service_version pd,
     prt_service_extrainfo := pd_service_extrainfo pd,
     prt_last_seen := now\<rparr>"

definition port_inserted :: "nat \<Rightarrow> int \<Rightarrow> port_data \<Rightarrow> port_row" where
  "port_inserted now i pd = \<lparr>
     prt_id = i,
     prt_device_id = pd_device_id pd,
     prt_port_number = pd_port_number pd,
     prt_protocol = dict_get_default (pd_protocol pd) ''tcp'',
     prt_state = pd_state pd,
     prt_service_name = pd_service_name pd,
     prt_service_product = pd_service_product pd,
     prt_service_version = pd_service_version pd,
     prt_service_extrainfo = pd_service_extrainfo pd,
     prt_last_seen = now\<rparr>"

definition add_port :: "faults \<Rightarrow> nat \<Rightarrow> port_data \<Rightarrow> db \<Rightarrow> exn + (int \<times> db)" where
  "add_port flt now pd db =
     (case flt db (Add_port pd) of
        Some msg \<Rightarrow> Inl (DatabaseError msg)
      | None \<Rightarrow>
          if list_ex (port_conflict pd) (ports db)
          then Inr (last_insert_rowid db,
                    db\<lparr>ports := map (\<lambda>r. if port_conflict pd r then port_excluded now pd r else r)
                                   (ports db)\<rparr>)
          else let i = fresh_id (map prt_id (ports db))
               in Inr (i, db\<lparr>ports := ports db @ [port_inserted now i pd],
                              last_insert_rowid := i\<rparr>))"

definition create_event :: "faults \<Rightarrow> nat \<Rightarrow> event_data \<Rightarrow> db \<Rightarrow> exn + (int \<times> db)" where
  "create_event flt now ed db =
     (case flt db (Create_event ed) of
        Some msg \<Rightarrow> Inl (DatabaseError msg)
      | None \<Rightarrow>
          let i = fresh_id (map ev_id (events db))
          in Inr (i, db\<lparr>events := events db @
                            [\<lparr>ev_id = i,
                              ev_event_type = ed_event_type ed,
                              ev_severity = dict_get_default (ed_severity ed) ''info'',
                              ev_device_id = ed_device_id ed,
                              ev_title = ed_title ed,
                              ev_description = ed_description ed,
                              ev_metadata = json_dumps
                                (dict_get_default (ed_metadata ed) empty_metadata),
                              ev_created_at = now\<rparr>],
                         last_insert_rowid := i\<rparr>))"

definition save_scan_result :: "faults \<Rightarrow> nat \<Rightarrow> result_data \<Rightarrow> db \<Rightarrow> exn + (int \<times> db)" where
  "save_scan_result flt now rd db =
     (case flt db (Save_scan_result rd) of
        Some msg \<Rightarrow> Inl (DatabaseError msg)
      | None \<Rightarrow>
          let i = fresh_id (map res_id (scan_results db))
          in Inr (i, db\<lparr>scan_results := scan_results db @
                            [\<lparr>res_id = i, res_data = rd,
                              res_hosts_up = dict_get_default (rd_hosts_up rd) 0,
                              res_hosts_down = dict_get_default (rd_hosts_down rd) 0,
                              res_hosts_total = dict_get_default (rd_hosts_total rd) 0,
                              res_created_at = now\<rparr>],
                         last_insert_rowid := i\<rparr>))"

text \<open>
  The text that \<^verbatim>\<open>json.dumps\<close> gives for the scan options of a task: a missing key is the
  empty dictionary, and a string is quoted (for text that needs no escapes).
\<close>

definition json_scan_options :: "string field \<Rightarrow> string" where
  "json_scan_options f =
     (case f of Absent \<Rightarrow> ''{}'' | Null \<Rightarrow> ''null'' | Val s \<Rightarrow> [CHR 0x22] @ s @ [CHR 0x22])"

definition create_scan_task :: "faults \<Rightarrow> nat \<Rightarrow> task_data \<Rightarrow> db \<Rightarrow> exn + (int \<times> db)" where
  "create_scan_task flt now td db =
     (case flt db (Create_scan_task td) of
        Some msg \<Rightarrow> Inl (DatabaseError msg)
      | None \<Rightarrow>
          let i = fresh_id (map tsk_id (scan_tasks db))
          in Inr (i, db\<lparr>scan_tasks := scan_tasks db @
                            [\<lparr>tsk_id = i,
                              tsk_task_type = td_task_type td,
                              tsk_target = td_target td,
                              tsk_scan_options = Some (json_scan_options (td_scan_options td)),
                              tsk_status = dict_get_default (td_status td) ''pending'',
                              tsk_priority = dict_get_default (td_priority td) 5,
                              tsk_created_at = now,
                              tsk_scheduled_at = td_scheduled_at td,
                              tsk_started_at = None,
                              tsk_completed_at = None,
                              tsk_updated_at = now,
                              tsk_error = None\<rparr>],
                         last_insert_rowid := i\<rparr>))"

definition get_task :: "faults \<Rightarrow> int \<Rightarrow> db \<Rightarrow> exn + task_row option" where
  "get_task flt task_id db =
     (case flt db (Get_task task_id) of
        Some msg \<Rightarrow> Inl (DatabaseError msg)
      | None \<Rightarrow> Inr (find (\<lambda>r. tsk_id r = task_id) (scan_tasks db)))"

text \<open>
  \<^verbatim>\<open>update_task_status\<close>: the three \<^verbatim>\<open>UPDATE\<close> statements. None of them looks at the status
  that the row has.
\<close>

definition task_updated :: "nat \<Rightarrow> string \<Rightarrow> string option \<Rightarrow> task_row \<Rightarrow> task_row" where
  "task_updated now new_status error r =
     (if new_status = ''running''
      then r\<lparr>tsk_status := Some new_status, tsk_started_at := Some now, tsk_updated_at := now\<rparr>
      else if new_status = ''completed'' \<or> new_status = ''failed''
      then r\<lparr>tsk_status := Some new_status, tsk_completed_at := Some now,
             tsk_updated_at := now, tsk_error := error\<rparr>
      else r\<lparr>tsk_status := Some new_status, tsk_updated_at := now\<rparr>)"

definition update_task_status ::
  "faults \<Rightarrow> nat \<Rightarrow> int \<Rightarrow> string \<Rightarrow> string option \<Rightarrow> db \<Rightarrow> exn + db" where
  "update_task_status flt now task_id new_status error db =
     (case flt db (Update_task_status task_id new_status error) of
        Some msg \<Rightarrow> Inl (DatabaseError msg)
      | None \<Rightarrow>
          Inr (db\<lparr>scan_tasks := map (\<lambda>r. if tsk_id r = task_id
                                            then task_updated now new_status error r else r)
                                  (scan_tasks db)\<rparr>))"

section \<open>The worker and the orchestrator (pulse/scanner/worker.py)\<close>

text \<open>
  What a worker gets from outside while it runs one task: the path that \<^verbatim>\<open>_find_nmap\<close>
  finds, if any, the environment of the scan, and the two library functions of the
  parser.
\<close>

record worker_env =
  we_nmap_path :: "string option"
  we_scan_env :: scan_env
  we_fromstring :: "string \<Rightarrow> string + elem"
  we_isoformat :: "int \<Rightarrow> string option"

text \<open>\<^verbatim>\<open>f'{x}'\<close> for a value that may be \<^verbatim>\<open>None\<close>.\<close>

definition fmt :: "string option \<Rightarrow> string" where
  "fmt v = (case v of None \<Rightarrow> ''None'' | Some s \<Rightarrow> s)"

text \<open>The choice of the scan by task type; \<open>None\<close> for an unknown type.\<close>

definition dispatch_scan ::
  "scanner \<Rightarrow> scan_env \<Rightarrow> string option \<Rightarrow> string option \<Rightarrow> string option \<Rightarrow> int \<Rightarrow>
     scan_result option" where
  "dispatch_scan sc env task_type target scan_options timeout =
     (if task_type = Some ''discovery'' then Some (discovery_scan sc env target timeout)
      else if task_type = Some ''quick'' then Some (quick_scan sc env target timeout)
      else if task_type = Some ''deep'' then Some (deep_scan sc env target timeout)
      else if task_type = Some ''full'' then Some (full_scan sc env target timeout)
      else if task_type = Some ''custom''
      then Some (scan sc env target ''custom'' scan_options timeout)
      else None)"

text \<open>
  The block ``parse results if successful'': the parsed data and the devices are added to
  the result; the result is not looked at for an error of the parser. An exception of
  \<^verbatim>\<open>extract_devices\<close> leaves the block.
\<close>

definition parse_scan_output :: "worker_env \<Rightarrow> scan_result \<Rightarrow> exn + scan_result" where
  "parse_scan_output env result =
     (if sr_success result \<and> sr_xml_output result \<noteq> None \<and> sr_xml_output result \<noteq> Some []
      then (let parsed_data = parse_xml (we_fromstring env) (we_isoformat env)
                                (sr_xml_output result)
            in case extract_devices parsed_data of
                 Inl e \<Rightarrow> Inl e
               | Inr devs \<Rightarrow> Inr (result\<lparr>sr_parsed_data := Some parsed_data,
                                          sr_devices := Some devs\<rparr>))
      else Inr result)"

text \<open>\<^verbatim>\<open>_scan_worker\<close>: every exception becomes a failed result.\<close>

definition scan_worker :: "config \<Rightarrow> worker_env \<Rightarrow> task_row \<Rightarrow> scan_result" where
  "scan_worker cfg env task_data =
     (let task_id = Some (tsk_id task_data)
      in if we_nmap_path env = None \<or> we_nmap_path env = Some []
         then (failed_result ''Nmap not found in system PATH'')\<lparr>sr_task_id := task_id\<rparr>
         else
           (let sc = \<lparr>nmap_path = the (we_nmap_path env), scanner_config = Some cfg\<rparr>;
                timeout = config_get_int cfg ''scanner.workers.timeout'' 600
            in case dispatch_scan sc (we_scan_env env) (tsk_task_type task_data)
                      (tsk_target task_data) (tsk_scan_options task_data) timeout of
                 None \<Rightarrow>
                   (failed_result (''Unknown task type: '' @ fmt (tsk_task_type task_data)))
                     \<lparr>sr_task_id := task_id\<rparr>
               | Some result \<Rightarrow>
                   (case parse_scan_output env result of
                      Inl e \<Rightarrow> (failed_result (str_exn e))\<lparr>sr_task_id := task_id\<rparr>
                    | Inr parsed_result \<Rightarrow> parsed_result\<lparr>sr_task_id := task_id\<rparr>)))"

text \<open>The dictionary that \<^verbatim>\<open>_process_scan_result\<close> hands to \<^verbatim>\<open>save_scan_result\<close>.\<close>

definition parsed_count :: "scan_result \<Rightarrow> (parsed_scan \<Rightarrow> int) \<Rightarrow> int" where
  "parsed_count result sel =
     (case sr_parsed_data result of
        None \<Rightarrow> 0
      | Some (Parse_failed msg) \<Rightarrow> 0
      | Some (Parsed p) \<Rightarrow> sel p)"

definition result_data_of :: "scan_result \<Rightarrow> result_data" where
  "result_data_of result = \<lparr>
     rd_task_id = sr_task_id result,
     rd_scan_type = sr_scan_type result,
     rd_target = sr_target result,
     rd_start_time = sr_start_time result,
     rd_end_time = sr_end_time result,
     rd_duration = sr_duration result,
     rd_hosts_up = Val (parsed_count result ps_hosts_up),
     rd_hosts_down = Val (parsed_count result ps_hosts_down),
     rd_hosts_total = Val (parsed_count result ps_hosts_total),
     rd_nmap_command = sr_command result,
     rd_nmap_version = sr_nmap_version result,
     rd_raw_output = sr_stdout result,
     rd_xml_output = sr_xml_output result,
     rd_summary = Some (''Scanned '' @ fmt (sr_target result) @ '' - '' @
                        py_str (parsed_count result ps_hosts_up) @ '' hosts up'')\<rparr>"

text \<open>The dictionary of one port for \<^verbatim>\<open>add_port\<close>; \<^verbatim>\<open>int\<close> raises on a port id that is no number.\<close>

definition port_data_of :: "int \<Rightarrow> port \<Rightarrow> exn + port_data" where
  "port_data_of device_id p =
     (case py_int (p_port p) of
        Inl e \<Rightarrow> Inl e
      | Inr n \<Rightarrow> Inr \<lparr>
          pd_device_id = device_id,
          pd_port_number = n,
          pd_protocol = Val (p_protocol p),
          pd_state = Some (get_or (p_state p) ''unknown''),
          pd_service_name = map_option s_name (p_service p),
          pd_service_product = map_option s_product (p_service p),
          pd_service_version = map_option s_version (p_service p),
          pd_service_extrainfo = map_option s_extrainfo (p_service p)\<rparr>)"

text \<open>The loop over the ports of a device: a port that raises is logged and skipped.\<close>

fun add_ports :: "faults \<Rightarrow> nat \<Rightarrow> int \<Rightarrow> port list \<Rightarrow> db \<Rightarrow> db" where
  "add_ports flt now device_id [] db = db"
| "add_ports flt now device_id (p # ps) db =
     (case port_data_of device_id p of
        Inl e \<Rightarrow> add_ports flt now device_id ps db
      | Inr pd \<Rightarrow>
          (case add_port flt now pd db of
             Inl e \<Rightarrow> add_ports flt now device_id ps db
           | Inr (port_id, db') \<Rightarrow> add_ports flt now device_id ps db'))"

definition discovered_event :: "int \<Rightarrow> device_data \<Rightarrow> event_data" where
  "discovered_event device_id d = \<lparr>
     ed_event_type = Some ''device_discovered'',
     ed_severity = Val ''info'',
     ed_device_id = Some device_id,
     ed_title = Some (''Device discovered: '' @ fmt (ip_address d)),
     ed_description = Some (''New device found - '' @
        fmt (if hostname d \<noteq> None \<and> hostname d \<noteq> Some [] then hostname d else ip_address d)),
     ed_metadata = Absent\<rparr>"

text \<open>
  The body of the loop over the devices, inside its \<^verbatim>\<open>try\<close>: the exception that ended it,
  if any, and the store it leaves. What was committed before the exception stays.
\<close>

definition process_device :: "faults \<Rightarrow> nat \<Rightarrow> device_data \<Rightarrow> db \<Rightarrow> exn option \<times> db" where
  "process_device flt now d db =
     (case add_device flt now d db of
        Inl e \<Rightarrow> (Some e, db)
      | Inr (device_id, db1) \<Rightarrow>
          (case metadata_ports d of
             Inl e \<Rightarrow> (Some e, db1)
           | Inr port_list \<Rightarrow>
               (let db2 = (if port_list \<noteq> [] then add_ports flt now device_id port_list db1
                           else db1)
                in case create_event flt now (discovered_event device_id d) db2 of
                     Inl e \<Rightarrow> (Some e, db2)
                   | Inr (event_id, db3) \<Rightarrow> (None, db3))))"

text \<open>The loop: the \<^verbatim>\<open>except\<close> clause logs the exception and goes on with the next device.\<close>

fun process_devices :: "faults \<Rightarrow> nat \<Rightarrow> device_data list \<Rightarrow> db \<Rightarrow> db" where
  "process_devices flt now [] db = db"
| "process_devices flt now (d # ds) db =
     process_devices flt now ds (snd (process_device flt now d db))"

text \<open>\<^verbatim>\<open>_process_scan_result\<close>; it never raises.\<close>

definition process_scan_result :: "faults \<Rightarrow> nat \<Rightarrow> scan_result \<Rightarrow> db \<Rightarrow> db" where
  "process_scan_result flt now result db =
     (if \<not> sr_success result then db
      else case save_scan_result flt now (result_data_of result) db of
             Inl e \<Rightarrow> db
           | Inr (result_id, db1) \<Rightarrow>
               process_devices flt now (get_or (sr_devices result) []) db1)"

text \<open>
  \<^verbatim>\<open>execute_task\<close>. Every statement of the store is committed on its own, so the stores
  between the statements can be observed; the function gives, with its result or the
  exception that leaves it, the stores after the update to \<^verbatim>\<open>running\<close>, after the
  processing of the result and after the last update, as far as it gets. The clock is
  read once.
\<close>

definition execute_task ::
  "faults \<Rightarrow> config \<Rightarrow> worker_env \<Rightarrow> nat \<Rightarrow> int \<Rightarrow> db \<Rightarrow> (exn + scan_result) \<times> db list" where
  "execute_task flt cfg env now task_id db =
     (case get_task flt task_id db of
        Inl e \<Rightarrow> (Inl e, [])
      | Inr None \<Rightarrow> (Inr (failed_result ''Task not found''), [])
      | Inr (Some task_data) \<Rightarrow>
          (case update_task_status flt now task_id ''running'' None db of
             Inl e \<Rightarrow> (Inl e, [])
           | Inr db1 \<Rightarrow>
               (let result = scan_worker cfg env task_data;
                    db2 = process_scan_result flt now result db1
                in case (if sr_success result
                         then update_task_status flt now task_id ''completed'' None db2
                         else update_task_status flt now task_id ''failed''
                                (sr_error result) db2) of
                     Inr db3 \<Rightarrow> (Inr result, [db1, db2, db3])
                   | Inl e \<Rightarrow>
                       (case update_task_status flt now task_id ''failed''
                               (Some (str_exn e)) db2 of
                          Inl e' \<Rightarrow> (Inl e', [db1, db2])
                        | Inr db3 \<Rightarrow> (Inr (failed_result (str_exn e)), [db1, db2, db3])))))"

section \<open>Observations of the store used in the statements\<close>

text \<open>The status of a task, if the task exists.\<close>

definition task_status :: "db \<Rightarrow> int \<Rightarrow> string option option" where
  "task_status db task_id =
     map_option tsk_status (find (\<lambda>r. tsk_id r = task_id) (scan_tasks db))"







text \<open>The error column of a task, if the task exists.\<close>

definition task_error :: "db \<Rightarrow> int \<Rightarrow> string option option" where
  "task_error db task_id =
     map_option tsk_error (find (\<lambda>r. tsk_id r = task_id) (scan_tasks db))"

text \<open>
  For the examples: a configuration without entries, a scan that ends with exit code 0 and
  leaves a truncated document, a worker whose XML reader rejects that document, and a store
  with one pending discovery task.
\<close>

definition sample_cfg :: config where
  "sample_cfg = \<lparr>cfg_text = (\<lambda>key. None), cfg_int = (\<lambda>key. None)\<rparr>"

definition finished_env :: scan_env where
  "finished_env = timeout_env\<lparr>
     env_end_time := 12,
     env_outcome := Finished 0 ''Nmap done: 1 IP address scanned'' [],
     env_xml_file := Some ''<nmaprun><host>''\<rparr>"

definition malformed_env :: worker_env where
  "malformed_env = \<lparr>
     we_nmap_path = Some ''/usr/bin/nmap'',
     we_scan_env = finished_env,
     we_fromstring = rejecting_reader,
     we_isoformat = no_isoformat\<rparr>"

definition sample_task :: task_data where
  "sample_task = \<lparr>
     td_task_type = Some ''discovery'', td_target = Some ''192.168.1.0/24'',
     td_scan_options = Absent, td_status = Absent, td_priority = Absent,
     td_scheduled_at = None\<rparr>"

definition one_task_db :: db where
  "one_task_db = db_after (create_scan_task no_faults 5 sample_task empty_db)"

text \<open>The row of that task, and the result of its scan before the worker parses it.\<close>

definition sample_task_row :: task_row where
  "sample_task_row = \<lparr>
     tsk_id = 1, tsk_task_type = Some ''discovery'', tsk_target = Some ''192.168.1.0/24'',
     tsk_scan_options = Some ''{}'', tsk_status = Some ''pending'', tsk_priority = Some 5,
     tsk_created_at = 5, tsk_scheduled_at = None, tsk_started_at = None,
     tsk_completed_at = None, tsk_updated_at = 5, tsk_error = None\<rparr>"

definition finished_scan :: scan_result where
  "finished_scan =
     discovery_scan \<lparr>nmap_path = ''/usr/bin/nmap'', scanner_config = Some sample_cfg\<rparr>
       finished_env (Some ''192.168.1.0/24'') 600"


section \<open>The device upsert\<close>

lemma mem_map_filter: "r \<in> set xs \<Longrightarrow> f r = Some k \<Longrightarrow> k \<in> set (List.map_filter f xs)"
  by (induction xs) (auto simp: map_filter_simps split: option.splits)

lemma unique_filter_le1:
  "distinct (List.map_filter f xs) \<Longrightarrow> length (filter (\<lambda>r. f r = Some k) xs) \<le> 1"
proof (induction xs)
  case Nil
  then show ?case by simp
next
  case (Cons x xs)
  show ?case
  proof (cases "f x = Some k")
    case True
    with Cons.prems have "k \<notin> set (List.map_filter f xs)"
      by (simp add: map_filter_simps)
    then have "filter (\<lambda>r. f r = Some k) xs = []"
      by (auto simp: filter_empty_conv dest: mem_map_filter)
    with True show ?thesis by simp
  next
    case False
    with Cons show ?thesis
      by (auto simp: map_filter_simps split: option.splits)
  qed
qed

lemma device_excluded_ip [simp]: "dev_ip_address (device_excluded now d r) = dev_ip_address r"
  by (simp add: device_excluded_def)

lemma device_excluded_id [simp]: "dev_id (device_excluded now d r) = dev_id r"
  by (simp add: device_excluded_def)

lemma device_excluded_first_seen [simp]: "dev_first_seen (device_excluded now d r) = dev_first_seen r"
  by (simp add: device_excluded_def)

lemma add_device_cases:
  assumes "add_device flt now d db = Inr (i, db')"
  shows "flt db (Add_device d) = None \<and>
     (if list_ex (device_conflict (ip_address d)) (devices db)
      then i = last_insert_rowid db \<and>
           db' = db\<lparr>devices := map (\<lambda>r. if device_conflict (ip_address d) r
                                             then device_excluded now d r else r) (devices db)\<rparr>
      else i = fresh_id (map dev_id (devices db)) \<and>
           db' = db\<lparr>devices := devices db @ [device_inserted now i d], last_insert_rowid := i\<rparr>)"
  using assms by (auto simp: add_device_def Let_def split: option.splits if_splits)

lemma upsert_map_ips:
  "map dev_ip_address (map (\<lambda>r. if device_conflict ip r then device_excluded now d r else r) rs)
     = map dev_ip_address rs"
  by (induction rs) auto

lemma map_filter_as_map: "List.map_filter f xs = List.map_filter id (map f xs)"
  by (induction xs) (auto simp: map_filter_simps split: option.splits)

lemma filter_upsert:
  "filter (\<lambda>r. dev_ip_address r = Some ip)
      (map (\<lambda>r. if device_conflict (Some ip) r then device_excluded now d r else r) rs)
   = map (device_excluded now d) (filter (\<lambda>r. dev_ip_address r = Some ip) rs)"
  by (induction rs) (auto simp: device_conflict_def)

lemma filter_upsert_other:
  "ip' \<noteq> ip \<Longrightarrow> filter (\<lambda>r. dev_ip_address r = Some ip')
      (map (\<lambda>r. if device_conflict (Some ip) r then device_excluded now d r else r) rs)
   = filter (\<lambda>r. dev_ip_address r = Some ip') rs"
  by (induction rs) (auto simp: device_conflict_def)

lemma list_ex_conflict:
  "list_ex (device_conflict (Some ip)) rs \<longleftrightarrow> filter (\<lambda>r. dev_ip_address r = Some ip) rs \<noteq> []"
  by (induction rs) (auto simp: device_conflict_def)

lemma add_device_unique:
  assumes "add_device flt now d db = Inr (i, db')" and "unique_ips db"
  shows "unique_ips db'"
proof (cases "list_ex (device_conflict (ip_address d)) (devices db)")
  case True
  with add_device_cases[OF assms(1)]
  have "map dev_ip_address (devices db') = map dev_ip_address (devices db)"
    by (simp add: upsert_map_ips)
  with assms(2) show ?thesis
    unfolding unique_ips_def by (metis map_filter_as_map)
next
  case False
  with add_device_cases[OF assms(1)]
  have db': "devices db' = devices db @ [device_inserted now i d]" by simp
  show ?thesis
  proof (cases "ip_address d")
    case None
    with db' assms(2) show ?thesis
      by (simp add: unique_ips_def List.map_filter_def device_inserted_def)
  next
    case (Some ip)
    with False have "filter (\<lambda>r. dev_ip_address r = Some ip) (devices db) = []"
      by (simp add: list_ex_conflict)
    then have "ip \<notin> set (List.map_filter dev_ip_address (devices db))"
      by (auto simp: List.map_filter_def filter_empty_conv)
    with db' assms(2) Some show ?thesis
      by (simp add: unique_ips_def List.map_filter_def device_inserted_def)
  qed
qed

lemma find_filter_single: "filter P xs = [r] \<Longrightarrow> find P xs = Some r"
  by (induction xs) (auto split: if_splits)

lemma add_device_rows:
  assumes "add_device flt now d db = Inr (i, db')" and "ip_address d = Some ip" and "unique_ips db"
  shows "device_rows_of db' ip =
     [case get_device db ip of
        Some r \<Rightarrow> device_excluded now d r
      | None \<Rightarrow> device_inserted now (fresh_id (map dev_id (devices db))) d]"
proof (cases "list_ex (device_conflict (ip_address d)) (devices db)")
  case True
  with assms(2) have ne: "filter (\<lambda>r. dev_ip_address r = Some ip) (devices db) \<noteq> []"
    by (simp add: list_ex_conflict)
  from assms(3) have "length (filter (\<lambda>r. dev_ip_address r = Some ip) (devices db)) \<le> 1"
    unfolding unique_ips_def by (rule unique_filter_le1)
  with ne obtain r where r: "filter (\<lambda>r. dev_ip_address r = Some ip) (devices db) = [r]"
    by (cases "filter (\<lambda>r. dev_ip_address r = Some ip) (devices db)") auto
  then have "get_device db ip = Some r"
    unfolding get_device_def by (rule find_filter_single)
  with True add_device_cases[OF assms(1)] assms(2) r show ?thesis
    by (simp add: device_rows_of_def filter_upsert)
next
  case False
  with assms(2) have e: "filter (\<lambda>r. dev_ip_address r = Some ip) (devices db) = []"
    by (simp add: list_ex_conflict)
  then have "get_device db ip = None"
    by (auto simp: get_device_def find_None_iff filter_empty_conv)
  with False add_device_cases[OF assms(1)] assms(2) e show ?thesis
    by (simp add: device_rows_of_def device_inserted_def)
qed


lemma add_device_no_faults_empty:
  "add_device no_faults t d empty_db = Inr (1, empty_db\<lparr>devices := [device_inserted t 1 d], last_insert_rowid := 1\<rparr>)"
  by (simp add: add_device_def no_faults_def empty_db_def fresh_id_def)

text \<open>
  Claim C1, as amended. After an accepted upsert of observation \<open>A\<close> and then of
  observation \<open>B\<close> for the same address, the inventory holds exactly one row for the
  address, and each of its observation fields is decided by \<open>B\<close> alone: the ten fields from
  \<open>mac_address\<close> to \<open>os_accuracy\<close> are those of \<open>B\<close>, null where \<open>B\<close> has none; \<open>status\<close>
  is that of \<open>B\<close>, or \<^verbatim>\<open>up\<close> when \<open>B\<close> has no \<open>status\<close> key; \<open>metadata\<close> is the JSON text of the
  metadata of \<open>B\<close>, or of the empty dictionary when \<open>B\<close> has no \<open>metadata\<close> key; and
  \<open>last_seen\<close> is the time of the second upsert.
\<close>

theorem add_device_last_write_wins:
  assumes "add_device flt t1 A db = Inr (i1, db1)"
    and "add_device flt t2 B db1 = Inr (i2, db2)"
    and "ip_address A = Some ip" and "ip_address B = Some ip"
    and "unique_ips db"
  shows "\<exists>r. device_rows_of db2 ip = [r] \<and>
     dev_mac_address r = mac_address B \<and>
     dev_hostname r = hostname B \<and>
     dev_vendor r = vendor B \<and>
     dev_oui r = oui B \<and>
     dev_device_type r = device_type B \<and>
     dev_os_name r = os_name B \<and>
     dev_os_family r = os_family B \<and>
     dev_os_version r = os_version B \<and>
     dev_os_accuracy r = os_accuracy B \<and>
     dev_status r = dict_get_default (status B) ''up'' \<and>
     dev_metadata r = json_dumps (dict_get_default (metadata B) empty_metadata) \<and>
     dev_last_seen r = t2"
proof -
  have u1: "unique_ips db1" using assms(1,5) by (rule add_device_unique)
  have "device_rows_of db2 ip =
     [case get_device db1 ip of
        Some r \<Rightarrow> device_excluded t2 B r
      | None \<Rightarrow> device_inserted t2 (fresh_id (map dev_id (devices db1))) B]"
    using assms(2,4) u1 by (rule add_device_rows)
  then show ?thesis
    by (cases "get_device db1 ip") (simp_all add: device_excluded_def device_inserted_def)
qed

text \<open>
  The hostname recorded by the first upsert is replaced by null when the second
  observation has none.
\<close>

theorem add_device_last_write_wins_witness:
  "\<exists>r. device_rows_of
         (db_after (add_device no_faults 20 (only_ip ''192.168.1.102'')
            (db_after (add_device no_faults 10
               ((only_ip ''192.168.1.102'')\<lparr>hostname := Some ''old-hostname''\<rparr>) empty_db))))
         ''192.168.1.102'' = [r] \<and> dev_hostname r = None \<and> dev_last_seen r = 20"
proof -
  let ?A = "(only_ip ''192.168.1.102'')\<lparr>hostname := Some ''old-hostname''\<rparr>"
  let ?B = "only_ip ''192.168.1.102''"
  let ?db1 = "empty_db\<lparr>devices := [device_inserted 10 1 ?A], last_insert_rowid := 1\<rparr>"
  let ?db2 = "?db1\<lparr>devices := [device_excluded 20 ?B (device_inserted 10 1 ?A)]\<rparr>"
  have a: "add_device no_faults 10 ?A empty_db = Inr (1, ?db1)"
    by (rule add_device_no_faults_empty)
  have b: "add_device no_faults 20 ?B ?db1 = Inr (1, ?db2)"
    by (simp add: add_device_def no_faults_def empty_db_def device_conflict_def
        device_inserted_def only_ip_def)
  have u: "unique_ips empty_db"
    by (simp add: unique_ips_def empty_db_def List.map_filter_def)
  have ipA: "ip_address ?A = Some ''192.168.1.102''" by (simp add: only_ip_def)
  have ipB: "ip_address ?B = Some ''192.168.1.102''" by (simp add: only_ip_def)
  from add_device_last_write_wins[OF a b ipA ipB u]
  obtain r where r: "device_rows_of ?db2 ''192.168.1.102'' = [r]"
    "dev_hostname r = hostname ?B" "dev_last_seen r = 20"
    by blast
  have h: "hostname ?B = None" by (simp add: only_ip_def)
  have "db_after (add_device no_faults 20 ?B (db_after (add_device no_faults 10 ?A empty_db))) = ?db2"
    by (simp only: a b db_after_def sum.sel snd_conv)
  with r h show ?thesis by simp
qed

text \<open>
  Claim C1 as stated fails: \<open>A\<close> has status \<^verbatim>\<open>down\<close>, \<open>B\<close> has no status, and the row ends with
  status \<^verbatim>\<open>up\<close>, not null.
\<close>

theorem add_device_absent_status_counterexample:
  "map dev_status (device_rows_of
         (db_after (add_device no_faults 20 (only_ip ''192.168.1.102'')
            (db_after (add_device no_faults 10
               ((only_ip ''192.168.1.102'')\<lparr>status := Val ''down''\<rparr>) empty_db))))
         ''192.168.1.102'') = [Some ''up'']
   \<and> dict_get (status (only_ip ''192.168.1.102'')) = None"
  by (simp add: add_device_def no_faults_def empty_db_def device_conflict_def fresh_id_def
      device_inserted_def device_excluded_def only_ip_def db_after_def device_rows_of_def
      dict_get_def dict_get_default_def)

text \<open>
  Claim C9. Two accepted upserts for one address, at times \<open>t1 \<le> t2\<close>, leave exactly one
  row for the address after each of them; each upsert sets \<open>last_seen\<close> to its own time, so
  the value does not decrease; and when the second record equals the first, the second
  upsert changes nothing in the row but \<open>last_seen\<close>.
\<close>

theorem add_device_idempotent:
  assumes "add_device flt t1 d1 db = Inr (i1, db1)"
    and "add_device flt t2 d2 db1 = Inr (i2, db2)"
    and "ip_address d1 = Some ip" and "ip_address d2 = Some ip"
    and "unique_ips db" and "t1 \<le> t2"
  shows "\<exists>r1 r2. device_rows_of db1 ip = [r1] \<and> device_rows_of db2 ip = [r2] \<and>
     dev_last_seen r1 = t1 \<and> dev_last_seen r2 = t2 \<and> dev_last_seen r1 \<le> dev_last_seen r2 \<and>
     (d2 = d1 \<longrightarrow> r2 = r1\<lparr>dev_last_seen := t2\<rparr>)"
proof -
  have u1: "unique_ips db1" using assms(1,5) by (rule add_device_unique)
  define r1 where "r1 = (case get_device db ip of
        Some r \<Rightarrow> device_excluded t1 d1 r
      | None \<Rightarrow> device_inserted t1 (fresh_id (map dev_id (devices db))) d1)"
  have rows1: "device_rows_of db1 ip = [r1]"
    unfolding r1_def using assms(1,3,5) by (rule add_device_rows)
  then have g1: "get_device db1 ip = Some r1"
    unfolding get_device_def device_rows_of_def by (rule find_filter_single)
  have "device_rows_of db2 ip =
     [case get_device db1 ip of
        Some r \<Rightarrow> device_excluded t2 d2 r
      | None \<Rightarrow> device_inserted t2 (fresh_id (map dev_id (devices db1))) d2]"
    using assms(2,4) u1 by (rule add_device_rows)
  with g1 have rows2: "device_rows_of db2 ip = [device_excluded t2 d2 r1]" by simp
  have ls1: "dev_last_seen r1 = t1"
    by (cases "get_device db ip") (simp_all add: r1_def device_excluded_def device_inserted_def)
  have same: "device_excluded t2 d1 r1 = r1\<lparr>dev_last_seen := t2\<rparr>"
    by (cases "get_device db ip") (simp_all add: r1_def device_excluded_def device_inserted_def)
  show ?thesis
    using rows1 rows2 ls1 same assms(6) by (auto simp: device_excluded_def)
qed


text \<open>The record of the test \<^verbatim>\<open>test_update_device\<close>, upserted twice.\<close>

theorem add_device_idempotent_witness:
  "\<exists>r1 r2.
     device_rows_of (db_after (add_device no_faults 10
         ((only_ip ''192.168.1.102'')\<lparr>hostname := Some ''old-hostname'', status := Val ''up''\<rparr>)
         empty_db)) ''192.168.1.102'' = [r1] \<and>
     device_rows_of (db_after (add_device no_faults 20
         ((only_ip ''192.168.1.102'')\<lparr>hostname := Some ''old-hostname'', status := Val ''up''\<rparr>)
         (db_after (add_device no_faults 10
           ((only_ip ''192.168.1.102'')\<lparr>hostname := Some ''old-hostname'', status := Val ''up''\<rparr>)
           empty_db)))) ''192.168.1.102'' = [r2] \<and>
     dev_last_seen r1 = 10 \<and> dev_last_seen r2 = 20 \<and> r2 = r1\<lparr>dev_last_seen := 20\<rparr>"
proof -
  let ?d = "(only_ip ''192.168.1.102'')\<lparr>hostname := Some ''old-hostname'', status := Val ''up''\<rparr>"
  let ?db1 = "empty_db\<lparr>devices := [device_inserted 10 1 ?d], last_insert_rowid := 1\<rparr>"
  let ?db2 = "?db1\<lparr>devices := [device_excluded 20 ?d (device_inserted 10 1 ?d)]\<rparr>"
  have a: "add_device no_faults 10 ?d empty_db = Inr (1, ?db1)"
    by (rule add_device_no_faults_empty)
  have b: "add_device no_faults 20 ?d ?db1 = Inr (1, ?db2)"
    by (simp add: add_device_def no_faults_def empty_db_def device_conflict_def
        device_inserted_def only_ip_def)
  have u: "unique_ips empty_db"
    by (simp add: unique_ips_def empty_db_def List.map_filter_def)
  have ipd: "ip_address ?d = Some ''192.168.1.102''" by (simp add: only_ip_def)
  have le: "(10::nat) \<le> 20" by simp
  from add_device_idempotent[OF a b ipd ipd u le]
  obtain r1 r2 where r: "device_rows_of ?db1 ''192.168.1.102'' = [r1]"
    "device_rows_of ?db2 ''192.168.1.102'' = [r2]"
    "dev_last_seen r1 = 10" "dev_last_seen r2 = 20" "r2 = r1\<lparr>dev_last_seen := 20\<rparr>"
    by blast
  have e1: "db_after (add_device no_faults 10 ?d empty_db) = ?db1"
    by (simp only: a db_after_def sum.sel snd_conv)
  have e2: "db_after (add_device no_faults 20 ?d ?db1) = ?db2"
    by (simp only: b db_after_def sum.sel snd_conv)
  show ?thesis
    unfolding e1 e2 using r by blast
qed

text \<open>
  Claim C10. An accepted upsert for an address that is already in the inventory keeps the
  number of device rows; every row keeps its \<open>id\<close>, \<open>ip_address\<close> and \<open>first_seen\<close>; a row
  with another address is left as it was; and no other table changes.
\<close>

theorem add_device_update_frame:
  assumes "add_device flt now d db = Inr (i, db')"
    and "ip_address d = Some ip"
    and "get_device db ip = Some r0"
  shows "length (devices db') = length (devices db) \<and>
     (\<forall>j<length (devices db).
        dev_id (devices db' ! j) = dev_id (devices db ! j) \<and>
        dev_ip_address (devices db' ! j) = dev_ip_address (devices db ! j) \<and>
        dev_first_seen (devices db' ! j) = dev_first_seen (devices db ! j) \<and>
        (dev_ip_address (devices db ! j) \<noteq> Some ip \<longrightarrow> devices db' ! j = devices db ! j)) \<and>
     ports db' = ports db \<and> events db' = events db \<and>
     scan_tasks db' = scan_tasks db \<and> scan_results db' = scan_results db"
proof -
  from assms(3) have "filter (\<lambda>r. dev_ip_address r = Some ip) (devices db) \<noteq> []"
    by (auto simp: get_device_def find_Some_iff filter_empty_conv)
  with assms(2) have "list_ex (device_conflict (ip_address d)) (devices db)"
    by (simp add: list_ex_conflict)
  with add_device_cases[OF assms(1)]
  have db': "db' = db\<lparr>devices := map (\<lambda>r. if device_conflict (ip_address d) r
                                             then device_excluded now d r else r) (devices db)\<rparr>"
    by simp
  show ?thesis
    unfolding db' using assms(2) by (simp add: device_conflict_def)
qed

text \<open>An upsert of the second of two devices leaves the first row and \<open>first_seen\<close> alone.\<close>

theorem add_device_update_frame_witness:
  "devices (db_after (add_device no_faults 20
       ((only_ip ''192.168.1.102'')\<lparr>hostname := Some ''new-hostname''\<rparr>)
       (empty_db\<lparr>devices := [device_inserted 10 1 (only_ip ''192.168.1.101''),
                               device_inserted 10 2 (only_ip ''192.168.1.102'')]\<rparr>)))
     ! 0 = device_inserted 10 1 (only_ip ''192.168.1.101'')
   \<and> dev_first_seen (devices (db_after (add_device no_faults 20
       ((only_ip ''192.168.1.102'')\<lparr>hostname := Some ''new-hostname''\<rparr>)
       (empty_db\<lparr>devices := [device_inserted 10 1 (only_ip ''192.168.1.101''),
                               device_inserted 10 2 (only_ip ''192.168.1.102'')]\<rparr>))) ! 1) = 10"
proof -
  let ?d = "(only_ip ''192.168.1.102'')\<lparr>hostname := Some ''new-hostname''\<rparr>"
  let ?rows = "[device_inserted 10 1 (only_ip ''192.168.1.101''),
                device_inserted 10 2 (only_ip ''192.168.1.102'')]"
  let ?db = "empty_db\<lparr>devices := ?rows\<rparr>"
  let ?db' = "?db\<lparr>devices := [device_inserted 10 1 (only_ip ''192.168.1.101''),
      device_excluded 20 ?d (device_inserted 10 2 (only_ip ''192.168.1.102''))]\<rparr>"
  have a: "add_device no_faults 20 ?d ?db = Inr (0, ?db')"
    by (simp add: add_device_def no_faults_def empty_db_def device_conflict_def
        device_inserted_def only_ip_def)
  have ipd: "ip_address ?d = Some ''192.168.1.102''" by (simp add: only_ip_def)
  have g: "get_device ?db ''192.168.1.102'' = Some (device_inserted 10 2 (only_ip ''192.168.1.102''))"
    by (simp add: get_device_def empty_db_def device_inserted_def only_ip_def)
  have e: "db_after (add_device no_faults 20 ?d ?db) = ?db'"
    by (simp only: a db_after_def sum.sel snd_conv)
  have r0: "dev_ip_address (devices ?db ! 0) \<noteq> Some ''192.168.1.102''"
    by (simp add: empty_db_def device_inserted_def only_ip_def)
  have l: "length (devices ?db) = 2" by (simp add: empty_db_def)
  from add_device_update_frame[OF a ipd g]
  have f: "\<forall>j<length (devices ?db).
        dev_first_seen (devices ?db' ! j) = dev_first_seen (devices ?db ! j) \<and>
        (dev_ip_address (devices ?db ! j) \<noteq> Some ''192.168.1.102'' \<longrightarrow> devices ?db' ! j = devices ?db ! j)"
    by blast
  from f l have "devices ?db' ! 0 = devices ?db ! 0" using r0 by (metis zero_less_numeral)
  moreover from f l have "dev_first_seen (devices ?db' ! 1) = dev_first_seen (devices ?db ! 1)"
    by (metis one_less_numeral_iff semiring_norm(76))
  moreover have "devices ?db ! 0 = device_inserted 10 1 (only_ip ''192.168.1.101'')"
    by (simp add: empty_db_def)
  moreover have "dev_first_seen (devices ?db ! 1) = 10"
    by (simp add: empty_db_def device_inserted_def)
  ultimately show ?thesis unfolding e by simp
qed
section \<open>The best operating system match\<close>

lemma max_loop_first_max:
  assumes "\<forall>x\<in>set xs. \<exists>k. key x = Inr k"
    and "key best = Inr bk"
    and "i < length pre" and "pre ! i = best"
    and "\<forall>j<length pre. \<exists>b. key (pre ! j) = Inr b \<and> b \<le> bk \<and> (j < i \<longrightarrow> b < bk)"
  shows "\<exists>r i' a. max_loop key best bk xs = Inr r \<and> i' < length (pre @ xs) \<and>
           (pre @ xs) ! i' = r \<and> key r = Inr a \<and>
           (\<forall>j<length (pre @ xs). \<exists>b. key ((pre @ xs) ! j) = Inr b \<and> b \<le> a \<and> (j < i' \<longrightarrow> b < a))"
  using assms
proof (induction xs arbitrary: best bk pre i)
  case Nil
  then show ?case by auto
next
  case (Cons x xs)
  from Cons.prems(1) obtain k where k: "key x = Inr k" by auto
  from Cons.prems(1) have rest: "\<forall>y\<in>set xs. \<exists>k. key y = Inr k" by simp
  show ?case
  proof (cases "k > bk")
    case True
    have a: "length pre < length (pre @ [x])" by simp
    have b: "(pre @ [x]) ! length pre = x" by simp
    have c: "\<forall>j<length (pre @ [x]). \<exists>b. key ((pre @ [x]) ! j) = Inr b \<and> b \<le> k \<and> (j < length pre \<longrightarrow> b < k)"
    proof (intro allI impI)
      fix j assume "j < length (pre @ [x])"
      then consider "j < length pre" | "j = length pre" by force
      then show "\<exists>b. key ((pre @ [x]) ! j) = Inr b \<and> b \<le> k \<and> (j < length pre \<longrightarrow> b < k)"
      proof cases
        case 1
        with Cons.prems(5) obtain b where "key (pre ! j) = Inr b" "b \<le> bk" by blast
        with 1 True show ?thesis by (auto simp: nth_append)
      next
        case 2
        with k show ?thesis by simp
      qed
    qed
    from Cons.IH[OF rest k a b c] True k show ?thesis by simp
  next
    case False
    have a: "i < length (pre @ [x])" using Cons.prems(3) by simp
    have b: "(pre @ [x]) ! i = best" using Cons.prems(3,4) by (simp add: nth_append)
    have c: "\<forall>j<length (pre @ [x]). \<exists>b. key ((pre @ [x]) ! j) = Inr b \<and> b \<le> bk \<and> (j < i \<longrightarrow> b < bk)"
    proof (intro allI impI)
      fix j assume "j < length (pre @ [x])"
      then consider "j < length pre" | "j = length pre" by force
      then show "\<exists>b. key ((pre @ [x]) ! j) = Inr b \<and> b \<le> bk \<and> (j < i \<longrightarrow> b < bk)"
      proof cases
        case 1
        with Cons.prems(5) show ?thesis by (auto simp: nth_append)
      next
        case 2
        with k False Cons.prems(3) show ?thesis by simp
      qed
    qed
    from Cons.IH[OF rest Cons.prems(2) a b c] False k show ?thesis by simp
  qed
qed

lemma py_max_first_max:
  assumes "xs \<noteq> []" and "\<forall>x\<in>set xs. \<exists>k. key x = Inr k"
  shows "\<exists>r i a. py_max key xs = Inr r \<and> i < length xs \<and> xs ! i = r \<and> key r = Inr a \<and>
           (\<forall>j<length xs. \<exists>b. key (xs ! j) = Inr b \<and> b \<le> a \<and> (j < i \<longrightarrow> b < a))"
proof -
  from assms(1) obtain x rest where xs: "xs = x # rest" by (cases xs) auto
  with assms(2) obtain k where k: "key x = Inr k" by auto
  from assms(2) xs have rest: "\<forall>y\<in>set rest. \<exists>k. key y = Inr k" by simp
  have a: "0 < length [x]" by simp
  have b: "[x] ! 0 = x" by simp
  have c: "\<forall>j<length [x]. \<exists>b. key ([x] ! j) = Inr b \<and> b \<le> k \<and> (j < 0 \<longrightarrow> b < k)"
    using k by simp
  from max_loop_first_max[OF rest k a b c] xs k show ?thesis
    by (simp add: py_max_def)
qed

lemma py_int_Inr: "py_int s = Inr n \<longleftrightarrow> int_of_str s = Some n"
  by (simp add: py_int_def split: option.splits)

lemma int_of_str_examples:
  "int_of_str ''95'' = Some 95" "int_of_str ''98'' = Some 98" "int_of_str '' 1_0'' = Some 10"
  "int_of_str [] = None" "int_of_str ''-7'' = Some (-7)" "int_of_str ''5_'' = None"
  by (simp_all add: int_of_str_def str_strip_def is_space_def unsigned_value_def is_digit_def
      digit_value_def)

text \<open>
  For a host whose \<^verbatim>\<open>os\<close> element has at least one \<^verbatim>\<open>osmatch\<close> candidate, each with an
  accuracy that reads as an integer, \<^verbatim>\<open>_parse_os\<close> returns the candidates in document order
  together with a best match: a candidate whose accuracy is maximal among all of them, and
  the first such candidate, every earlier one having a strictly smaller accuracy.
\<close>

lemma parse_os_best_match:
  assumes "elem_find host_elem ''os'' = Some os_elem"
    and "elem_findall os_elem ''osmatch'' \<noteq> []"
    and "\<forall>m\<in>set (elem_findall os_elem ''osmatch'').
           \<exists>n. int_of_str (elem_get m ''accuracy'' '''') = Some n"
  shows "\<exists>info best i a. parse_os host_elem = Inr (Some info) \<and>
      os_matches info = map parse_os_match (elem_findall os_elem ''osmatch'') \<and>
      os_best_match info = Some best \<and> i < length (os_matches info) \<and>
      os_matches info ! i = best \<and> int_of_str (om_accuracy best) = Some a \<and>
      (\<forall>j<length (os_matches info).
         \<exists>b. int_of_str (om_accuracy (os_matches info ! j)) = Some b \<and> b \<le> a \<and>
             (j < i \<longrightarrow> b < a))"
proof -
  let ?ms = "map parse_os_match (elem_findall os_elem ''osmatch'')"
  let ?key = "\<lambda>x. py_int (om_accuracy x)"
  have ne: "?ms \<noteq> []" using assms(2) by simp
  have keys: "\<forall>x\<in>set ?ms. \<exists>k. ?key x = Inr k"
    using assms(3) by (auto simp: py_int_Inr parse_os_match_def)
  from py_max_first_max[OF ne keys]
  obtain r i a where r: "py_max ?key ?ms = Inr r" "i < length ?ms" "?ms ! i = r" "?key r = Inr a"
    "\<forall>j<length ?ms. \<exists>b. ?key (?ms ! j) = Inr b \<and> b \<le> a \<and> (j < i \<longrightarrow> b < a)"
    by blast
  have "parse_os host_elem =
      Inr (Some \<lparr>os_matches = ?ms, os_classes = [], os_best_match = Some r\<rparr>)"
    using assms(1) ne r(1) by (simp add: parse_os_def Let_def)
  with r(2-5) show ?thesis
    by (simp add: py_int_Inr del: length_map nth_map) blast
qed

lemma parse_os_three_matches:
  "parse_os host_elem_three_matches =
     Inr (Some \<lparr>os_matches = [parse_os_match (osmatch_elem ''Linux 2.6'' ''95''),
                              parse_os_match (osmatch_elem ''Linux 3.X'' ''98''),
                              parse_os_match (osmatch_elem ''Linux 4.X'' ''98'')],
                 os_classes = [],
                 os_best_match = Some (parse_os_match (osmatch_elem ''Linux 3.X'' ''98''))\<rparr>)"
  by (simp add: parse_os_def host_elem_three_matches_def elem_find_def elem_findall_def
      osmatch_elem_def parse_os_match_def elem_get_def py_max_def py_int_def int_of_str_examples)

text \<open>Of the accuracies 95, 98, 98 the second candidate is selected.\<close>

lemma parse_os_best_match_witness:
  "\<exists>info best i a. parse_os host_elem_three_matches = Inr (Some info) \<and>
      os_best_match info = Some best \<and> om_name best = ''Linux 3.X'' \<and>
      i < length (os_matches info) \<and> os_matches info ! i = best \<and>
      int_of_str (om_accuracy best) = Some a \<and>
      (\<forall>j<length (os_matches info).
         \<exists>b. int_of_str (om_accuracy (os_matches info ! j)) = Some b \<and> b \<le> a \<and>
             (j < i \<longrightarrow> b < a))"
proof -
  let ?os = "Elem ''os'' [] None
          [osmatch_elem ''Linux 2.6'' ''95'',
           osmatch_elem ''Linux 3.X'' ''98'',
           osmatch_elem ''Linux 4.X'' ''98'']"
  have h1: "elem_find host_elem_three_matches ''os'' = Some ?os"
    by (simp add: host_elem_three_matches_def elem_find_def)
  have h2: "elem_findall ?os ''osmatch'' \<noteq> []"
    by (simp add: elem_findall_def osmatch_elem_def)
  have h3: "\<forall>m\<in>set (elem_findall ?os ''osmatch'').
           \<exists>n. int_of_str (elem_get m ''accuracy'' '''') = Some n"
    by (simp add: elem_findall_def osmatch_elem_def elem_get_def int_of_str_examples)
  from parse_os_best_match[OF h1 h2 h3]
  obtain info best i a where p: "parse_os host_elem_three_matches = Inr (Some info)"
      "os_best_match info = Some best" "i < length (os_matches info)"
      "os_matches info ! i = best" "int_of_str (om_accuracy best) = Some a"
      "\<forall>j<length (os_matches info).
         \<exists>b. int_of_str (om_accuracy (os_matches info ! j)) = Some b \<and> b \<le> a \<and>
             (j < i \<longrightarrow> b < a)"
    by blast
  from p(1,2) have "best = parse_os_match (osmatch_elem ''Linux 3.X'' ''98'')"
    by (auto simp: parse_os_three_matches)
  then have "om_name best = ''Linux 3.X''"
    by (simp add: parse_os_match_def osmatch_elem_def elem_get_def)
  with p show ?thesis by blast
qed

lemma missing_accuracy_os:
  "parse_os host_elem_missing_accuracy =
     Inl (ValueError (''invalid literal for int() with base 10: '' @ [CHR 0x27, CHR 0x27]))"
  by (simp add: parse_os_def host_elem_missing_accuracy_def elem_find_def elem_findall_def
      osmatch_elem_def parse_os_match_def elem_get_def py_max_def py_int_def int_of_str_examples)

text \<open>
  Claim C6. The claim is that for every host with a non-empty list of operating system
  candidates the selected best match is a candidate of maximal integer accuracy, the first
  one on ties. The key of the maximum, \<^verbatim>\<open>int(x.get('accuracy', 0))\<close>, provides the default 0
  for a candidate without accuracy, but \<^verbatim>\<open>_parse_os\<close> stores the accuracy of every candidate,
  the empty text when the attribute is missing, so the default never applies. On a host with
  the two candidates \<^verbatim>\<open>Linux 2.6\<close> (accuracy 95) and \<^verbatim>\<open>Linux 3.X\<close> (no accuracy attribute)
  \<^verbatim>\<open>int('')\<close> raises \<^verbatim>\<open>ValueError\<close> inside \<^verbatim>\<open>max\<close>: no best match is selected, and
  \<^verbatim>\<open>parse_xml\<close> returns its error object for the whole document.
\<close>

theorem parse_os_missing_accuracy:
  "map (\<lambda>m. elem_get m ''name'' '''')
      (elem_findall (the (elem_find host_elem_missing_accuracy ''os'')) ''osmatch'')
     = [''Linux 2.6'', ''Linux 3.X''] \<and>
   parse_os host_elem_missing_accuracy =
     Inl (ValueError (''invalid literal for int() with base 10: '' @ [CHR 0x27, CHR 0x27])) \<and>
   parse_xml missing_accuracy_reader no_isoformat (Some ''<nmaprun/>'') =
     Parse_failed (''Error parsing XML: invalid literal for int() with base 10: '' @
       [CHR 0x27, CHR 0x27])"
proof -
  have a: "map (\<lambda>m. elem_get m ''name'' '''')
      (elem_findall (the (elem_find host_elem_missing_accuracy ''os'')) ''osmatch'')
     = [''Linux 2.6'', ''Linux 3.X'']"
    by (simp add: host_elem_missing_accuracy_def elem_find_def elem_findall_def
      osmatch_elem_def elem_get_def)
  have h: "parse_host host_elem_missing_accuracy =
     Inl (ValueError (''invalid literal for int() with base 10: '' @ [CHR 0x27, CHR 0x27]))"
    unfolding parse_host_def missing_accuracy_os
    by (simp add: host_elem_missing_accuracy_def elem_find_def Let_def)
  have hs: "parse_hosts (elem_findall missing_accuracy_root ''host'') =
     Inl (ValueError (''invalid literal for int() with base 10: '' @ [CHR 0x27, CHR 0x27]))"
    using h by (simp add: missing_accuracy_root_def elem_findall_def host_elem_missing_accuracy_def)
  have x: "parse_xml missing_accuracy_reader no_isoformat (Some ''<nmaprun/>'') =
     Parse_failed (''Error parsing XML: invalid literal for int() with base 10: '' @
       [CHR 0x27, CHR 0x27])"
    unfolding parse_xml_def using hs by (simp add: missing_accuracy_reader_def Let_def)
  from a missing_accuracy_os x show ?thesis by (intro conjI)
qed
section \<open>Extraction of devices\<close>





















section \<open>The timeout of a scan\<close>

lemma py_str_600: "py_str 600 = ''600''"
  by (simp add: py_str_def str_nat.simps digit_char_def)

lemma timeout_env_command:
  "build_command (env_shlex_split timeout_env) sample_scanner (Some ''192.168.1.0/24'')
      ''discovery'' None (Some (env_xml_path timeout_env))
   = Inr [Some ''/usr/bin/nmap'', Some ''-sn'', Some ''-T4'', Some ''-oX'',
          Some ''/tmp/nmap_x.xml'', Some ''192.168.1.0/24'']"
  by (simp add: build_command_def scan_type_options_def timeout_env_def sample_scanner_def)

lemma timeout_env_join:
  "join_command [Some ''/usr/bin/nmap'', Some ''-sn'', Some ''-T4'', Some ''-oX'',
          Some ''/tmp/nmap_x.xml'', Some ''192.168.1.0/24'']
   = Inr ''/usr/bin/nmap -sn -T4 -oX /tmp/nmap_x.xml 192.168.1.0/24''"
  by (simp add: join_command_def)

text \<open>
  Claim C7, as amended. When the command was built and the external process exceeds the
  timeout, \<^verbatim>\<open>scan\<close> returns a result whose \<open>success\<close> is false, whose \<open>error\<close> is the text
  \<^verbatim>\<open>Scan timeout after <timeout>s\<close> with the configured timeout in decimal, and whose
  \<open>duration\<close> is the configured timeout.
\<close>

theorem scan_timeout_result:
  assumes "build_command (env_shlex_split env) sc target scan_type options
             (Some (env_xml_path env)) = Inr cmd"
    and "join_command cmd = Inr cmd_str"
    and "env_outcome env = Timeout_expired"
  shows "sr_success (scan sc env target scan_type options timeout) = False \<and>
     sr_error (scan sc env target scan_type options timeout)
       = Some (''Scan timeout after '' @ py_str timeout @ ''s'') \<and>
     sr_duration (scan sc env target scan_type options timeout) = Some (of_int timeout)"
  using assms by (simp add: scan_def failed_result_def)

text \<open>A discovery scan of \<^verbatim>\<open>192.168.1.0/24\<close> that runs into a timeout of 600 seconds.\<close>

theorem scan_timeout_result_witness:
  "sr_success (scan sample_scanner timeout_env (Some ''192.168.1.0/24'') ''discovery'' None 600)
     = False \<and>
   sr_error (scan sample_scanner timeout_env (Some ''192.168.1.0/24'') ''discovery'' None 600)
     = Some (''Scan timeout after '' @ py_str 600 @ ''s'') \<and>
   sr_duration (scan sample_scanner timeout_env (Some ''192.168.1.0/24'') ''discovery'' None 600)
     = Some 600"
proof -
  have o: "env_outcome timeout_env = Timeout_expired" by (simp add: timeout_env_def)
  from scan_timeout_result[OF timeout_env_command timeout_env_join o, of 600]
  show ?thesis by simp
qed

text \<open>
  Claim C7 as stated fails: with a timeout of 600 seconds the error of the result is
  \<^verbatim>\<open>Scan timeout after 600s\<close>, which is not the text \<^verbatim>\<open>timeout\<close>.
\<close>

theorem scan_timeout_error_counterexample:
  "sr_error (scan sample_scanner timeout_env (Some ''192.168.1.0/24'') ''discovery'' None 600)
     = Some ''Scan timeout after 600s''"
  using timeout_env_command timeout_env_join
  by (simp add: scan_def failed_result_def py_str_600 timeout_env_def del: append.simps)

section \<open>Scoring and selection in the classifier\<close>

















lemma lower_Cisco: "str_lower ''Cisco'' = ''cisco''" "str_lower ''router'' = ''router''"
  "str_lower ''printer'' = ''printer''"
  by (simp_all add: str_lower_def lower_char_def)

lemma cisco_in: "str_in ''cisco'' ''gw cisco  ''" "\<not> str_in ''Cisco'' ''gw cisco  ''"
  "\<not> str_in ''router'' ''gw cisco  ''" "\<not> str_in ''printer'' ''gw cisco  ''"
  by simp_all


lemma cisco_printer_score:
  "rule_score {} {} ''gw cisco  '' (snd (sample_rules ! 1)) = 0"
  by (simp add: sample_rules_def rule_score_def port_points_def keyword_points_def
      service_points_def lower_Cisco cisco_in)




section \<open>Isolation of failures in the reconciliation of a scan result\<close>

lemma add_device_other_tables:
  assumes "add_device flt now d db = Inr (i, db')"
  shows "ports db' = ports db" "events db' = events db" "scan_tasks db' = scan_tasks db"
    "scan_results db' = scan_results db"
  using add_device_cases[OF assms] by (auto split: if_splits)



lemma add_port_cases:
  assumes "add_port flt now pd db = Inr (i, db')"
  shows "flt db (Add_port pd) = None \<and>
     (if list_ex (port_conflict pd) (ports db)
      then db' = db\<lparr>ports := map (\<lambda>r. if port_conflict pd r then port_excluded now pd r else r)
                                   (ports db)\<rparr>
      else db' = db\<lparr>ports := ports db @ [port_inserted now i pd], last_insert_rowid := i\<rparr>)"
  using assms by (auto simp: add_port_def Let_def split: option.splits if_splits)


lemma port_excluded_key [simp]:
  "prt_device_id (port_excluded now pd r) = prt_device_id r"
  "prt_port_number (port_excluded now pd r) = prt_port_number r"
  "prt_protocol (port_excluded now pd r) = prt_protocol r"
  by (simp_all add: port_excluded_def)









lemma process_device_cases:
  obtains (add_failed) e where "add_device flt now d db = Inl e"
      "process_device flt now d db = (Some e, db)"
  | (metadata_failed) did db1 e where "add_device flt now d db = Inr (did, db1)"
      "metadata_ports d = Inl e" "process_device flt now d db = (Some e, db1)"
  | (event_failed) did db1 pl e where "add_device flt now d db = Inr (did, db1)"
      "metadata_ports d = Inr pl"
      "create_event flt now (discovered_event did d)
         (if pl \<noteq> [] then add_ports flt now did pl db1 else db1) = Inl e"
      "process_device flt now d db
         = (Some e, if pl \<noteq> [] then add_ports flt now did pl db1 else db1)"
  | (event_created) did db1 pl eid db3 where "add_device flt now d db = Inr (did, db1)"
      "metadata_ports d = Inr pl"
      "create_event flt now (discovered_event did d)
         (if pl \<noteq> [] then add_ports flt now did pl db1 else db1) = Inr (eid, db3)"
      "process_device flt now d db = (None, db3)"
proof (cases "add_device flt now d db")
  case (Inl e)
  then have "process_device flt now d db = (Some e, db)" by (simp add: process_device_def)
  with Inl show ?thesis by (rule add_failed)
next
  case (Inr res)
  obtain did db1 where res: "add_device flt now d db = Inr (did, db1)"
    using Inr by (cases res) simp
  show ?thesis
  proof (cases "metadata_ports d")
    case (Inl e)
    with res have "process_device flt now d db = (Some e, db1)"
      by (simp add: process_device_def)
    with res Inl show ?thesis by (rule metadata_failed)
  next
    case pl: (Inr pl)
    let ?db2 = "if pl \<noteq> [] then add_ports flt now did pl db1 else db1"
    show ?thesis
    proof (cases "create_event flt now (discovered_event did d) ?db2")
      case (Inl e)
      with res pl have "process_device flt now d db = (Some e, ?db2)"
        by (simp add: process_device_def Let_def)
      with res pl Inl show ?thesis by (rule event_failed)
    next
      case (Inr r2)
      obtain eid db3 where r2: "create_event flt now (discovered_event did d) ?db2 = Inr (eid, db3)"
        using Inr by (cases r2) simp
      with res pl have "process_device flt now d db = (None, db3)"
        by (simp add: process_device_def Let_def)
      with res pl r2 show ?thesis by (rule event_created)
    qed
  qed
qed



















section \<open>Failures of the parser in the pipeline\<close>

lemma parse_xml_empty:
  "parse_xml fs isofmt None = Parse_failed ''Empty XML output''"
  "parse_xml fs isofmt (Some []) = Parse_failed ''Empty XML output''"
  by (simp_all add: parse_xml_def)

lemma parse_xml_rejected:
  "x \<noteq> [] \<Longrightarrow> fs x = Inl msg \<Longrightarrow>
   parse_xml fs isofmt (Some x) = Parse_failed (''XML parse error: '' @ msg)"
  by (simp add: parse_xml_def del: append.simps)

lemma extract_devices_failed: "extract_devices (Parse_failed m) = Inr []"
  by (simp add: extract_devices_def payload_hosts_def)

lemma parse_scan_output_rejected:
  assumes "sr_success r0" and "sr_xml_output r0 = Some x" and "x \<noteq> []"
    and "we_fromstring env x = Inl msg"
  shows "parse_scan_output env r0 =
     Inr (r0\<lparr>sr_parsed_data := Some (Parse_failed (''XML parse error: '' @ msg)),
             sr_devices := Some []\<rparr>)"
proof -
  have "parse_xml (we_fromstring env) (we_isoformat env) (sr_xml_output r0)
          = Parse_failed (''XML parse error: '' @ msg)"
    unfolding assms(2) using assms(3,4) by (rule parse_xml_rejected)
  with assms(1,2,3) show ?thesis
    by (simp add: parse_scan_output_def extract_devices_failed Let_def del: append.simps)
qed

lemma scan_worker_rejected:
  assumes "we_nmap_path env = Some path" and "path \<noteq> []"
    and "dispatch_scan \<lparr>nmap_path = path, scanner_config = Some cfg\<rparr> (we_scan_env env)
           (tsk_task_type task) (tsk_target task) (tsk_scan_options task)
           (config_get_int cfg ''scanner.workers.timeout'' 600) = Some r0"
    and "sr_success r0" and "sr_xml_output r0 = Some x" and "x \<noteq> []"
    and "we_fromstring env x = Inl msg"
  shows "scan_worker cfg env task =
     r0\<lparr>sr_parsed_data := Some (Parse_failed (''XML parse error: '' @ msg)),
        sr_devices := Some [], sr_task_id := Some (tsk_id task)\<rparr>"
  using assms(1,2,3) parse_scan_output_rejected[OF assms(4-7)]
  by (simp add: scan_worker_def Let_def del: append.simps)

lemma find_task_updated:
  "find (\<lambda>r. tsk_id r = task_id)
     (map (\<lambda>r. if tsk_id r = task_id then task_updated now s e r else r) rows)
   = map_option (task_updated now s e) (find (\<lambda>r. tsk_id r = task_id) rows)"
  by (induction rows) (auto simp: task_updated_def)

lemma find_task_other:
  "other \<noteq> task_id \<Longrightarrow>
   find (\<lambda>r. tsk_id r = other)
     (map (\<lambda>r. if tsk_id r = task_id then task_updated now s e r else r) rows)
   = find (\<lambda>r. tsk_id r = other) rows"
  by (induction rows) (auto simp: task_updated_def)

lemma task_updated_status: "tsk_status (task_updated now s e r) = Some s"
  by (simp add: task_updated_def)

lemma task_updated_error:
  "s = ''completed'' \<or> s = ''failed'' \<Longrightarrow> tsk_error (task_updated now s e r) = e"
  by (auto simp: task_updated_def)

lemma update_task_status_cases:
  assumes "update_task_status flt now task_id s e db = Inr db'"
  shows "db' = db\<lparr>scan_tasks := map (\<lambda>r. if tsk_id r = task_id
                                            then task_updated now s e r else r)
                                  (scan_tasks db)\<rparr>"
  using assms by (auto simp: update_task_status_def split: option.splits)

lemma update_task_status_accepted:
  "flt db (Update_task_status task_id s e) = None \<Longrightarrow>
   update_task_status flt now task_id s e db =
     Inr (db\<lparr>scan_tasks := map (\<lambda>r. if tsk_id r = task_id
                                        then task_updated now s e r else r)
                              (scan_tasks db)\<rparr>)"
  by (simp add: update_task_status_def)

lemma update_task_status_status:
  assumes "update_task_status flt now task_id s e db = Inr db'"
  shows "task_status db' task_id = map_option (\<lambda>r. Some s) (task_status db task_id)"
    and "other \<noteq> task_id \<Longrightarrow> task_status db' other = task_status db other"
    and "devices db' = devices db"
  unfolding update_task_status_cases[OF assms] task_status_def
  by (simp_all add: find_task_updated find_task_other option.map_comp comp_def
      task_updated_status)

lemma update_task_status_error:
  assumes "update_task_status flt now task_id s e db = Inr db'"
    and "s = ''completed'' \<or> s = ''failed''"
  shows "task_error db' task_id = map_option (\<lambda>r. e) (task_error db task_id)"
  unfolding update_task_status_cases[OF assms(1)] task_error_def
  by (simp add: find_task_updated option.map_comp comp_def task_updated_error[OF assms(2)])

lemma add_port_tasks:
  assumes "add_port flt now pd db = Inr (i, db')"
  shows "scan_tasks db' = scan_tasks db"
  using add_port_cases[OF assms] by (auto split: if_splits)

lemma add_ports_tasks: "scan_tasks (add_ports flt now did ps db) = scan_tasks db"
  by (induction ps arbitrary: db)
     (auto split: sum.splits prod.splits dest: add_port_tasks)

lemma process_devices_tasks: "scan_tasks (process_devices flt now ds db) = scan_tasks db"
proof (induction ds arbitrary: db)
  case Nil
  then show ?case by simp
next
  case (Cons d ds)
  have "scan_tasks (snd (process_device flt now d db)) = scan_tasks db"
  proof (cases flt now d db rule: process_device_cases)
    case (add_failed e)
    then show ?thesis by simp
  next
    case (metadata_failed did db1 e)
    then show ?thesis by (simp add: add_device_other_tables)
  next
    case (event_failed did db1 pl e)
    then show ?thesis by (simp add: add_device_other_tables add_ports_tasks)
  next
    case (event_created did db1 pl eid db3)
    from event_created(3) have "scan_tasks db3
        = scan_tasks (if pl \<noteq> [] then add_ports flt now did pl db1 else db1)"
      by (auto simp: create_event_def Let_def split: option.splits)
    with event_created(1,4) show ?thesis by (simp add: add_device_other_tables add_ports_tasks)
  qed
  with Cons.IH[of "snd (process_device flt now d db)"] show ?case by simp
qed

lemma process_scan_result_tasks:
  "scan_tasks (process_scan_result flt now result db) = scan_tasks db"
  by (auto simp: process_scan_result_def save_scan_result_def Let_def process_devices_tasks
      split: option.splits)

lemma process_scan_result_no_devices:
  "get_or (sr_devices result) [] = [] \<Longrightarrow>
   devices (process_scan_result flt now result db) = devices db"
  by (auto simp: process_scan_result_def save_scan_result_def Let_def split: option.splits)

lemma execute_task_parse_failure:
  assumes nf: "\<forall>db s. flt db s = None"
    and task: "find (\<lambda>r. tsk_id r = task_id) (scan_tasks db) = Some task"
    and path: "we_nmap_path env = Some path" "path \<noteq> []"
    and disp: "dispatch_scan \<lparr>nmap_path = path, scanner_config = Some cfg\<rparr> (we_scan_env env)
           (tsk_task_type task) (tsk_target task) (tsk_scan_options task)
           (config_get_int cfg ''scanner.workers.timeout'' 600) = Some r0"
    and ok: "sr_success r0" and xml: "sr_xml_output r0 = Some x" "x \<noteq> []"
    and bad: "we_fromstring env x = Inl msg"
  shows "\<exists>db1 db2 db3.
     execute_task flt cfg env now task_id db =
       (Inr (r0\<lparr>sr_parsed_data := Some (Parse_failed (''XML parse error: '' @ msg)),
                sr_devices := Some [], sr_task_id := Some task_id\<rparr>), [db1, db2, db3]) \<and>
     task_status db1 task_id = Some (Some ''running'') \<and>
     task_status db3 task_id = Some (Some ''completed'') \<and>
     task_error db3 task_id = Some None \<and>
     devices db3 = devices db"
proof -
  let ?r = "r0\<lparr>sr_parsed_data := Some (Parse_failed (''XML parse error: '' @ msg)),
                sr_devices := Some [], sr_task_id := Some task_id\<rparr>"
  from task have id: "tsk_id task = task_id" by (auto simp: find_Some_iff)
  have g: "get_task flt task_id db = Inr (Some task)"
    using nf task by (simp add: get_task_def)
  obtain db1 where u1: "update_task_status flt now task_id ''running'' None db = Inr db1"
    using nf by (simp add: update_task_status_def)
  have w: "scan_worker cfg env task = ?r"
    using scan_worker_rejected[OF path disp ok xml bad] id by simp
  have s: "sr_success ?r" using ok by simp
  define db2 where "db2 = process_scan_result flt now ?r db1"
  obtain db3 where u3: "update_task_status flt now task_id ''completed'' None db2 = Inr db3"
    using nf by (simp add: update_task_status_def)
  have e: "execute_task flt cfg env now task_id db = (Inr ?r, [db1, db2, db3])"
    using ok u3[unfolded db2_def]
    by (simp add: execute_task_def g u1 w Let_def db2_def del: append.simps)
  have t0: "task_status db task_id = Some (tsk_status task)"
    using task by (simp add: task_status_def)
  have t1: "task_status db1 task_id = Some (Some ''running'')"
    using update_task_status_status(1)[OF u1] t0 by simp
  have t2: "task_status db2 task_id = task_status db1 task_id"
    by (simp add: db2_def task_status_def process_scan_result_tasks)
  have t3: "task_status db3 task_id = Some (Some ''completed'')"
    using update_task_status_status(1)[OF u3] t1 t2 by simp
  have "task_error db2 task_id \<noteq> None"
    using t1 t2 by (auto simp: task_error_def task_status_def)
  then have e3: "task_error db3 task_id = Some None"
    using update_task_status_error[OF u3] by auto
  have d: "devices db3 = devices db"
    using update_task_status_status(3)[OF u3] update_task_status_status(3)[OF u1]
    by (simp add: db2_def process_scan_result_no_devices get_or_def)
  from e t1 t3 e3 d show ?thesis by blast
qed

text \<open>
  Claim C8, as amended. For a payload that is empty or that the XML reader rejects,
  \<^verbatim>\<open>parse_xml\<close> returns an error object with the message, and the devices extracted from an
  error object are the empty list. The pipeline does not make the task fail: the worker
  parses only a non-empty payload, stores the error object and the empty device list in
  the result without looking at the error and leaves \<open>success\<close> true; when the store accepts
  the statements, \<^verbatim>\<open>execute_task\<close> returns that result and the task ends \<open>completed\<close> with a
  null error, and the device rows are the ones from before.
\<close>

theorem parse_failure_task_completed:
  "parse_xml fs isofmt None = Parse_failed ''Empty XML output'' \<and>
   parse_xml fs isofmt (Some []) = Parse_failed ''Empty XML output'' \<and>
   (\<forall>x msg. x \<noteq> [] \<and> fs x = Inl msg \<longrightarrow>
      parse_xml fs isofmt (Some x) = Parse_failed (''XML parse error: '' @ msg)) \<and>
   (\<forall>m. extract_devices (Parse_failed m) = Inr []) \<and>
   (\<forall>r0::scan_result. sr_xml_output r0 = None \<or> sr_xml_output r0 = Some [] \<longrightarrow>
      parse_scan_output env r0 = Inr r0) \<and>
   (\<forall>task path r0 x msg.
      (\<forall>db s. flt db s = None) \<and>
      find (\<lambda>r. tsk_id r = task_id) (scan_tasks db) = Some task \<and>
      we_nmap_path env = Some path \<and> path \<noteq> [] \<and>
      dispatch_scan \<lparr>nmap_path = path, scanner_config = Some cfg\<rparr> (we_scan_env env)
        (tsk_task_type task) (tsk_target task) (tsk_scan_options task)
        (config_get_int cfg ''scanner.workers.timeout'' 600) = Some r0 \<and>
      sr_success r0 \<and> sr_xml_output r0 = Some x \<and> x \<noteq> [] \<and> we_fromstring env x = Inl msg
      \<longrightarrow> (\<exists>db1 db2 db3.
             execute_task flt cfg env now task_id db =
               (Inr (r0\<lparr>sr_parsed_data := Some (Parse_failed (''XML parse error: '' @ msg)),
                        sr_devices := Some [], sr_task_id := Some task_id\<rparr>),
                [db1, db2, db3]) \<and>
             task_status db1 task_id = Some (Some ''running'') \<and>
             task_status db3 task_id = Some (Some ''completed'') \<and>
             task_error db3 task_id = Some None \<and>
             devices db3 = devices db))"
proof (intro conjI allI impI)
  show "parse_xml fs isofmt None = Parse_failed ''Empty XML output''" by (rule parse_xml_empty(1))
  show "parse_xml fs isofmt (Some []) = Parse_failed ''Empty XML output''"
    by (rule parse_xml_empty(2))
next
  fix x msg assume "x \<noteq> [] \<and> fs x = Inl msg"
  then show "parse_xml fs isofmt (Some x) = Parse_failed (''XML parse error: '' @ msg)"
    using parse_xml_rejected[of x fs msg isofmt] by (elim conjE)
next
  fix m show "extract_devices (Parse_failed m) = Inr []" by (rule extract_devices_failed)
next
  fix r0 :: scan_result assume "sr_xml_output r0 = None \<or> sr_xml_output r0 = Some []"
  then show "parse_scan_output env r0 = Inr r0" by (auto simp: parse_scan_output_def)
next
  fix task path r0 x msg
  assume a: "(\<forall>db s. flt db s = None) \<and>
      find (\<lambda>r. tsk_id r = task_id) (scan_tasks db) = Some task \<and>
      we_nmap_path env = Some path \<and> path \<noteq> [] \<and>
      dispatch_scan \<lparr>nmap_path = path, scanner_config = Some cfg\<rparr> (we_scan_env env)
        (tsk_task_type task) (tsk_target task) (tsk_scan_options task)
        (config_get_int cfg ''scanner.workers.timeout'' 600) = Some r0 \<and>
      sr_success r0 \<and> sr_xml_output r0 = Some x \<and> x \<noteq> [] \<and> we_fromstring env x = Inl msg"
  show "\<exists>db1 db2 db3.
             execute_task flt cfg env now task_id db =
               (Inr (r0\<lparr>sr_parsed_data := Some (Parse_failed (''XML parse error: '' @ msg)),
                        sr_devices := Some [], sr_task_id := Some task_id\<rparr>),
                [db1, db2, db3]) \<and>
             task_status db1 task_id = Some (Some ''running'') \<and>
             task_status db3 task_id = Some (Some ''completed'') \<and>
             task_error db3 task_id = Some None \<and>
             devices db3 = devices db"
    by (rule execute_task_parse_failure[OF a[THEN conjunct1]
          a[THEN conjunct2, THEN conjunct1]
          a[THEN conjunct2, THEN conjunct2, THEN conjunct1]
          a[THEN conjunct2, THEN conjunct2, THEN conjunct2, THEN conjunct1]
          a[THEN conjunct2, THEN conjunct2, THEN conjunct2, THEN conjunct2, THEN conjunct1]
          a[THEN conjunct2, THEN conjunct2, THEN conjunct2, THEN conjunct2, THEN conjunct2,
            THEN conjunct1]
          a[THEN conjunct2, THEN conjunct2, THEN conjunct2, THEN conjunct2, THEN conjunct2,
            THEN conjunct2, THEN conjunct1]
          a[THEN conjunct2, THEN conjunct2, THEN conjunct2, THEN conjunct2, THEN conjunct2,
            THEN conjunct2, THEN conjunct2, THEN conjunct1]
          a[THEN conjunct2, THEN conjunct2, THEN conjunct2, THEN conjunct2, THEN conjunct2,
            THEN conjunct2, THEN conjunct2, THEN conjunct2]])
qed

lemma no_faults_all: "\<forall>db s. no_faults db s = None"
  by (simp add: no_faults_def)

lemma one_task_db_tasks: "scan_tasks one_task_db = [sample_task_row]"
  by (simp add: one_task_db_def db_after_def create_scan_task_def no_faults_def sample_task_def
      empty_db_def fresh_id_def json_scan_options_def dict_get_default_def Let_def
      sample_task_row_def)

lemma one_task_db_find:
  "find (\<lambda>r. tsk_id r = 1) (scan_tasks one_task_db) = Some sample_task_row"
  unfolding one_task_db_tasks by (simp add: sample_task_row_def)

lemma one_task_db_devices: "devices one_task_db = []"
  by (simp add: one_task_db_def db_after_def create_scan_task_def no_faults_def
      empty_db_def Let_def)

lemma finished_env_command:
  "build_command (env_shlex_split finished_env)
      \<lparr>nmap_path = ''/usr/bin/nmap'', scanner_config = Some sample_cfg\<rparr>
      (Some ''192.168.1.0/24'') ''discovery'' None (Some (env_xml_path finished_env))
   = Inr [Some ''/usr/bin/nmap'', Some ''-sn'', Some ''-T4'', Some ''-oX'',
          Some ''/tmp/nmap_x.xml'', Some ''192.168.1.0/24'']"
  by (simp add: build_command_def scan_type_options_def finished_env_def timeout_env_def
      sample_cfg_def config_get_text_def get_or_def)

lemma finished_scan_fields:
  "sr_success finished_scan" "sr_xml_output finished_scan = Some ''<nmaprun><host>''"
  "sr_error finished_scan = None"
proof -
  have o: "env_outcome finished_env = Finished 0 ''Nmap done: 1 IP address scanned'' []"
    and x: "env_xml_file finished_env = Some ''<nmaprun><host>''"
    by (simp_all add: finished_env_def)
  show "sr_success finished_scan" "sr_xml_output finished_scan = Some ''<nmaprun><host>''"
    "sr_error finished_scan = None"
    by (simp_all add: finished_scan_def discovery_scan_def scan_def finished_env_command
        timeout_env_join o x)
qed

lemma sample_dispatch:
  "dispatch_scan \<lparr>nmap_path = ''/usr/bin/nmap'', scanner_config = Some sample_cfg\<rparr>
     (we_scan_env malformed_env) (tsk_task_type sample_task_row) (tsk_target sample_task_row)
     (tsk_scan_options sample_task_row)
     (config_get_int sample_cfg ''scanner.workers.timeout'' 600) = Some finished_scan"
  by (simp add: dispatch_scan_def sample_task_row_def malformed_env_def config_get_int_def
      sample_cfg_def get_or_def finished_scan_def)

lemma malformed_env_fields:
  "we_nmap_path malformed_env = Some ''/usr/bin/nmap''"
  "we_fromstring malformed_env ''<nmaprun><host>'' = Inl ''syntax error: line 1, column 0''"
  by (simp_all add: malformed_env_def rejecting_reader_def)

lemma literal_nonempty: "''/usr/bin/nmap'' \<noteq> []" "''<nmaprun><host>'' \<noteq> []"
  by simp_all

lemma parse_error_text:
  "''XML parse error: '' @ ''syntax error: line 1, column 0''
     = ''XML parse error: syntax error: line 1, column 0''"
  by simp

text \<open>
  Claim C8 as stated fails. A discovery scan ends with exit code 0 and leaves a document
  that the XML reader rejects: the result that \<^verbatim>\<open>execute_task\<close> returns has \<open>success\<close> true
  and carries the error object of the parser, and the task ends \<open>completed\<close> with a null
  error; the pipeline does not treat it as failed with the message of the parser.
\<close>

theorem parse_failure_task_completed_counterexample:
  "sr_success finished_scan \<and>
   fst (execute_task no_faults sample_cfg malformed_env 20 1 one_task_db) =
     Inr (finished_scan\<lparr>
            sr_parsed_data :=
              Some (Parse_failed ''XML parse error: syntax error: line 1, column 0''),
            sr_devices := Some [], sr_task_id := Some 1\<rparr>) \<and>
   task_status (last (snd (execute_task no_faults sample_cfg malformed_env 20 1 one_task_db))) 1
     = Some (Some ''completed'') \<and>
   task_error (last (snd (execute_task no_faults sample_cfg malformed_env 20 1 one_task_db))) 1
     = Some None"
proof -
  from execute_task_parse_failure[OF no_faults_all one_task_db_find malformed_env_fields(1)
      literal_nonempty(1) sample_dispatch finished_scan_fields(1,2) literal_nonempty(2)
      malformed_env_fields(2), of 20]
  obtain db1 db2 db3 where
    e: "execute_task no_faults sample_cfg malformed_env 20 1 one_task_db =
       (Inr (finished_scan\<lparr>sr_parsed_data := Some (Parse_failed
                (''XML parse error: '' @ ''syntax error: line 1, column 0'')),
              sr_devices := Some [], sr_task_id := Some 1\<rparr>), [db1, db2, db3])"
    and t: "task_status db3 1 = Some (Some ''completed'')"
    and er: "task_error db3 1 = Some None"
    by (elim exE conjE)
  have l: "last [db1, db2, db3] = db3" by simp
  show ?thesis
    unfolding e fst_conv snd_conv l parse_error_text
    using finished_scan_fields(1) t er by (intro conjI refl)
qed

text \<open>
  The same run, by the theorem: the reader's message is in the error object, and the task
  is \<open>completed\<close>.
\<close>

theorem parse_failure_task_completed_witness:
  "parse_xml rejecting_reader no_isoformat (Some ''<nmaprun><host>'')
     = Parse_failed (''XML parse error: '' @ ''syntax error: line 1, column 0'') \<and>
   (\<exists>db1 db2 db3.
      execute_task no_faults sample_cfg malformed_env 20 1 one_task_db =
        (Inr (finished_scan\<lparr>sr_parsed_data := Some (Parse_failed
                 (''XML parse error: '' @ ''syntax error: line 1, column 0'')),
               sr_devices := Some [], sr_task_id := Some 1\<rparr>), [db1, db2, db3]) \<and>
      task_status db1 1 = Some (Some ''running'') \<and>
      task_status db3 1 = Some (Some ''completed'') \<and>
      task_error db3 1 = Some None \<and>
      devices db3 = [])"
proof -
  note t = parse_failure_task_completed[of rejecting_reader no_isoformat malformed_env
      no_faults 1 one_task_db sample_cfg 20]
  have r: "rejecting_reader ''<nmaprun><host>'' = Inl ''syntax error: line 1, column 0''"
    by (simp add: rejecting_reader_def)
  from t[THEN conjunct2, THEN conjunct2, THEN conjunct1, THEN spec, THEN spec, THEN mp,
      OF conjI[OF literal_nonempty(2) r]]
  have a: "parse_xml rejecting_reader no_isoformat (Some ''<nmaprun><host>'')
     = Parse_failed (''XML parse error: '' @ ''syntax error: line 1, column 0'')" .
  have h: "(\<forall>db s. no_faults db s = None) \<and>
      find (\<lambda>r. tsk_id r = 1) (scan_tasks one_task_db) = Some sample_task_row \<and>
      we_nmap_path malformed_env = Some ''/usr/bin/nmap'' \<and> ''/usr/bin/nmap'' \<noteq> [] \<and>
      dispatch_scan \<lparr>nmap_path = ''/usr/bin/nmap'', scanner_config = Some sample_cfg\<rparr>
        (we_scan_env malformed_env) (tsk_task_type sample_task_row) (tsk_target sample_task_row)
        (tsk_scan_options sample_task_row)
        (config_get_int sample_cfg ''scanner.workers.timeout'' 600) = Some finished_scan \<and>
      sr_success finished_scan \<and> sr_xml_output finished_scan = Some ''<nmaprun><host>'' \<and>
      ''<nmaprun><host>'' \<noteq> [] \<and>
      we_fromstring malformed_env ''<nmaprun><host>'' = Inl ''syntax error: line 1, column 0''"
    using no_faults_all one_task_db_find malformed_env_fields literal_nonempty sample_dispatch
      finished_scan_fields(1,2)
    by (intro conjI)
  from t[THEN conjunct2, THEN conjunct2, THEN conjunct2, THEN conjunct2, THEN conjunct2,
      THEN spec, THEN spec, THEN spec, THEN spec, THEN spec, THEN mp, OF h]
  have b: "\<exists>db1 db2 db3.
      execute_task no_faults sample_cfg malformed_env 20 1 one_task_db =
        (Inr (finished_scan\<lparr>sr_parsed_data := Some (Parse_failed
                 (''XML parse error: '' @ ''syntax error: line 1, column 0'')),
               sr_devices := Some [], sr_task_id := Some 1\<rparr>), [db1, db2, db3]) \<and>
      task_status db1 1 = Some (Some ''running'') \<and>
      task_status db3 1 = Some (Some ''completed'') \<and>
      task_error db3 1 = Some None \<and>
      devices db3 = devices one_task_db" .
  from a b[unfolded one_task_db_devices] show ?thesis by (rule conjI)
qed
section \<open>The status of a task\<close>





















end
